theory Spec2Isabelle
  imports Main "HOL-Library.Word"
begin

section \<open>WGsim read identifiers: data model\<close>

text \<open>
  The unit under study is \<^verbatim>\<open>SNAPLib/WGsim.cpp\<close>. It reads the identifier of a
  simulated read, \<^verbatim>\<open>contig_begin_end_:otherStuff\<close>, recovers the interval of the
  genome the read was drawn from, and says whether a candidate location misses that
  interval by more than \<^verbatim>\<open>maxK\<close>. A second function prints such an identifier.

  C's \<^verbatim>\<open>unsigned\<close> is a 32-bit word: \<open>+\<close> and \<open>-\<close> wrap around, \<open>unat\<close> reads
  the value. C's \<^verbatim>\<open>int\<close> is a 32-bit word read by \<open>sint\<close>; converting it to
  \<^verbatim>\<open>unsigned\<close> for a mixed sum keeps the bits, so the model adds the words.
\<close>

type_synonym u32 = "32 word"
type_synonym s32 = "32 word"

text \<open>
  Modelled from the spec: the class \<^verbatim>\<open>Read\<close> is declared outside this file. The
  specification calls the identifier an opaque byte string of bounded length owned by
  the caller. The function uses \<^verbatim>\<open>getId()\<close>, a pointer to the identifier's bytes, and
  \<^verbatim>\<open>getIdLength()\<close>, their number; the bytes need not be NUL-terminated. The model
  keeps exactly those bytes.
\<close>

record Read =
  idBytes :: string

definition getId :: "Read \<Rightarrow> string" where
  "getId rd = idBytes rd"

definition getIdLength :: "Read \<Rightarrow> nat" where
  "getIdLength rd = length (idBytes rd)"

text \<open>
  Modelled from the spec: the class \<^verbatim>\<open>Genome\<close> is declared outside this file. The
  specification gives the lookup as \<^verbatim>\<open>lookupContigOffsetByName(name) -> Option<unsigned>\<close>;
  in the code \<^verbatim>\<open>getOffsetOfContig(name, &offset)\<close> returns false for a name the genome
  does not hold and otherwise stores the contig's offset in the whole genome. The genome
  is a partial map from names to offsets.
\<close>

type_synonym Genome = "string \<rightharpoonup> u32"

definition getOffsetOfContig :: "Genome \<Rightarrow> string \<Rightarrow> u32 option" where
  "getOffsetOfContig genome contigName = genome contigName"

text \<open>
  Modelled from the spec: \<^verbatim>\<open>Genome::Contig\<close> is declared outside this file; the
  specification lists its name and its beginning offset in the genome. The printer reads
  the name, a C string.
\<close>

record Contig =
  name :: string
  beginningOffset :: u32

text \<open>
  The caller's memory, for the two output pointers \<^verbatim>\<open>lowOut\<close> and \<^verbatim>\<open>highOut\<close>:
  a store from addresses to words; a pointer is an address or \<^verbatim>\<open>NULL\<close> (\<open>None\<close>).
  Two pointers may hold the same address.
\<close>

type_synonym store = "nat \<Rightarrow> u32"
type_synonym ptr = "nat option"

definition store_through :: "ptr \<Rightarrow> u32 \<Rightarrow> store \<Rightarrow> store" where
  \<comment> \<open>\<^verbatim>\<open>if (p != NULL) *p = v;\<close>\<close>
  "store_through p v st = (case p of None \<Rightarrow> st | Some a \<Rightarrow> st(a := v))"

text \<open>
  Every way the parser gives up writes one line to \<^verbatim>\<open>stderr\<close> and returns
  \<^verbatim>\<open>false\<close>. The lines are told apart by their text; \<open>failure\<close> names them:
  \<^item> \<open>MissingColon\<close>: \<^verbatim>\<open>Failed to parse read id '%s', couldn't find a colon.\<close>
  \<^item> \<open>MissingUnderscore1\<close>: \<^verbatim>\<open>... couldn't find underscore before colon.\<close>
  \<^item> \<open>MissingUnderscore2\<close>: \<^verbatim>\<open>... couldn't find second underscore before colon.\<close>
  \<^item> \<open>MissingUnderscore3\<close>: \<^verbatim>\<open>... couldn't find third underscore before colon.\<close>
  \<^item> \<open>BadOffset1\<close>: \<^verbatim>\<open>... couldn't parse offset1.\<close>
  \<^item> \<open>BadOffset2\<close>: \<^verbatim>\<open>... couldn't parse offset2.\<close>
  \<^item> \<open>ContigNameTooLong\<close>: \<^verbatim>\<open>Contig name too big or misparsed, '%s'\<close>
  \<^item> \<open>UnknownContig\<close>: \<^verbatim>\<open>Couldn't find contig name '%s' in the genome.\<close>
  A line is its kind and the string printed for \<^verbatim>\<open>%s\<close>.
\<close>

datatype failure =
    MissingColon
  | MissingUnderscore1
  | MissingUnderscore2
  | MissingUnderscore3
  | BadOffset1
  | BadOffset2
  | ContigNameTooLong
  | UnknownContig

type_synonym message = "failure \<times> string"

text \<open>
  What a call does: it leaves through \<^verbatim>\<open>soft_exit(n)\<close>, or it returns a boolean,
  after at most one line on \<^verbatim>\<open>stderr\<close>, with the caller's memory as the call left it.
\<close>

datatype result =
    Exited (exit_code: int)
  | Return (retval: bool) (stderr: "message option") (mem: store)

text \<open>
  Modelled from the spec: \<^verbatim>\<open>soft_exit\<close> is declared in \<^verbatim>\<open>exit.h\<close>, outside this
  file. The specification says that the reference behaviour terminates the process:
  nothing after the call runs, and the caller's memory no longer matters.
\<close>

definition soft_exit :: "int \<Rightarrow> result" where
  "soft_exit n = Exited n"

section \<open>The C library functions the code calls\<close>

text \<open>\<^verbatim>\<open>strchr(s, c)\<close>: the index of the first \<open>c\<close> of a C string, \<open>None\<close> for \<^verbatim>\<open>NULL\<close>.\<close>

fun strchr :: "string \<Rightarrow> char \<Rightarrow> nat option" where
  "strchr [] c = None"
| "strchr (x # xs) c = (if x = c then Some 0 else map_option Suc (strchr xs c))"

text \<open>
  \<^verbatim>\<open>strncpy(id, src, n); id[n] = '\0'\<close>: the C string left in \<^verbatim>\<open>id\<close> is made of the
  first \<open>n\<close> bytes of the source, up to the first NUL among them.
\<close>

definition c_string :: "string \<Rightarrow> string" where
  "c_string bs = takeWhile (\<lambda>c. c \<noteq> CHR 0x00) bs"

definition strncpy_terminated :: "string \<Rightarrow> nat \<Rightarrow> string" where
  "strncpy_terminated src n = c_string (take n src)"

text \<open>
  \<^verbatim>\<open>sscanf(s, "%d", &x)\<close>: white space is skipped, then an optional sign and a
  non-empty run of decimal digits are read. \<open>sscanf_d\<close> is \<open>Some v\<close> when the call
  returns 1, with \<open>v\<close> the number read, and \<open>None\<close> when it returns 0 or \<^verbatim>\<open>EOF\<close>.
\<close>

definition isspace :: "char \<Rightarrow> bool" where
  "isspace c = (c \<in> {CHR '' '', CHR 0x09, CHR 0x0A, CHR 0x0B, CHR 0x0C, CHR 0x0D})"

definition isdigit :: "char \<Rightarrow> bool" where
  "isdigit c = (48 \<le> (of_char c :: nat) \<and> (of_char c :: nat) \<le> 57)"

definition digit_value :: "char \<Rightarrow> nat" where
  "digit_value c = of_char c - 48"

fun read_digits :: "nat \<Rightarrow> string \<Rightarrow> nat" where
  "read_digits acc [] = acc"
| "read_digits acc (c # cs) =
     (if isdigit c then read_digits (acc * 10 + digit_value c) cs else acc)"

definition starts_with_digit :: "string \<Rightarrow> bool" where
  "starts_with_digit s = (case s of [] \<Rightarrow> False | c # _ \<Rightarrow> isdigit c)"

definition sscanf_d :: "string \<Rightarrow> int option" where
  "sscanf_d s =
     (case dropWhile isspace s of
        [] \<Rightarrow> None
      | c # cs \<Rightarrow>
          if c = CHR ''-'' then
            (if starts_with_digit cs then Some (- int (read_digits 0 cs)) else None)
          else if c = CHR ''+'' then
            (if starts_with_digit cs then Some (int (read_digits 0 cs)) else None)
          else if isdigit c then Some (int (read_digits 0 (c # cs)))
          else None)"

text \<open>
  The code reads with \<^verbatim>\<open>%d\<close> into an \<^verbatim>\<open>unsigned\<close>: the variable receives the bits
  of the \<^verbatim>\<open>int\<close>. For a digit string outside the range of \<^verbatim>\<open>int\<close> the C standard
  leaves the stored value open (glibc, for one, clamps to the range of \<^verbatim>\<open>long\<close>
  before it keeps the low 32 bits); the model keeps the number modulo \<open>2 ^ 32\<close>. The
  two agree on every digit string within the range of \<^verbatim>\<open>long\<close>, and no statement
  below depends on the value stored beyond it.
\<close>

definition stored_as_unsigned :: "int \<Rightarrow> u32" where
  "stored_as_unsigned v = word_of_int v"

text \<open>
  \<^verbatim>\<open>sprintf\<close> with \<^verbatim>\<open>%d\<close>: the decimal digits of an \<^verbatim>\<open>int\<close>, after a minus sign when
  it is negative. Given an \<^verbatim>\<open>unsigned\<close>, \<^verbatim>\<open>%d\<close> prints its bits as an \<^verbatim>\<open>int\<close>.
\<close>

definition digit_char :: "nat \<Rightarrow> char" where
  "digit_char d = char_of (48 + d)"

fun decimal :: "nat \<Rightarrow> string" where
  "decimal n = (if n < 10 then [digit_char n] else decimal (n div 10) @ [digit_char (n mod 10)])"

declare decimal.simps [simp del]

definition printf_d :: "int \<Rightarrow> string" where
  "printf_d i = (if i < 0 then CHR ''-'' # decimal (nat (- i)) else decimal (nat i))"

section \<open>wgsimReadMisaligned\<close>

text \<open>
  The three backward loops (lines 70, 82 and 94) have one shape:
  \<^verbatim>\<open>for (p = start - 1; p >= id && *p != '_'; p--) {}\<close> followed by the test
  \<^verbatim>\<open>p < id\<close>. \<open>underscore_before s n\<close> runs the loop from index \<open>n - 1\<close> downwards:
  \<open>Some i\<close> is the index the pointer stops at, \<open>None\<close> is a pointer below \<^verbatim>\<open>id\<close>.
  The parser starts it at the colon or at an underscore found before, so every index it
  reads lies inside the string.
\<close>

fun underscore_before :: "string \<Rightarrow> nat \<Rightarrow> nat option" where
  "underscore_before s 0 = None"
| "underscore_before s (Suc i) =
     (if s ! i = CHR ''_'' then Some i else underscore_before s i)"

text \<open>
  Lines 63 to 134: the colon, the three underscores, the two offsets, and the contig
  name, in the order of the code. The result is the line written to \<^verbatim>\<open>stderr\<close>, or
  the contig name with \<^verbatim>\<open>offset1\<close> and \<^verbatim>\<open>offset2\<close> as read.
\<close>

definition contigNameMaxSize :: nat where
  "contigNameMaxSize = 200"

definition wgsimParseId :: "string \<Rightarrow> message + (string \<times> u32 \<times> u32)" where
  "wgsimParseId ident =
     (case strchr ident CHR '':'' of
        None \<Rightarrow> Inl (MissingColon, ident)
      | Some firstColon \<Rightarrow>
     (case underscore_before ident firstColon of
        None \<Rightarrow> Inl (MissingUnderscore1, ident)
      | Some underscoreBeforeColon \<Rightarrow>
     (case underscore_before ident underscoreBeforeColon of
        None \<Rightarrow> Inl (MissingUnderscore2, ident)
      | Some secondUnderscoreBeforeColon \<Rightarrow>
     (case underscore_before ident secondUnderscoreBeforeColon of
        None \<Rightarrow> Inl (MissingUnderscore3, ident)
      | Some thirdUnderscoreBeforeColon \<Rightarrow>
     (case sscanf_d (drop (thirdUnderscoreBeforeColon + 1) ident) of
        None \<Rightarrow> Inl (BadOffset1, ident)
      | Some v1 \<Rightarrow>
     (case (if underscoreBeforeColon = secondUnderscoreBeforeColon + 1
            then Some v1
            else sscanf_d (drop (secondUnderscoreBeforeColon + 1) ident)) of
        None \<Rightarrow> Inl (BadOffset2, ident)
      | Some v2 \<Rightarrow>
          if thirdUnderscoreBeforeColon \<ge> contigNameMaxSize
          then Inl (ContigNameTooLong, ident)
          else Inr (take thirdUnderscoreBeforeColon ident,
                    stored_as_unsigned v1, stored_as_unsigned v2)))))))"

text \<open>
  Lines 139 to 149: the contig's offset in the genome is added, one is subtracted
  (the identifier counts from one), and the two ends are ordered.
\<close>

definition wgsimInterval :: "Genome \<Rightarrow> string \<Rightarrow> message + (u32 \<times> u32)" where
  "wgsimInterval genome ident =
     (case wgsimParseId ident of
        Inl msg \<Rightarrow> Inl msg
      | Inr (contigName, offset1, offset2) \<Rightarrow>
          (case getOffsetOfContig genome contigName of
             None \<Rightarrow> Inl (UnknownContig, contigName)
           | Some offsetOfContig \<Rightarrow>
               let o1 = offset1 + offsetOfContig - 1;
                   o2 = offset2 + offsetOfContig - 1
               in Inr (min o1 o2, max o1 o2)))"

text \<open>Line 155, the value returned once the interval is known.\<close>

definition misaligned :: "u32 \<Rightarrow> u32 \<Rightarrow> u32 \<Rightarrow> s32 \<Rightarrow> bool" where
  "misaligned genomeLocation low high maxK =
     (genomeLocation > high + maxK \<or> genomeLocation + maxK < low)"

text \<open>
  The whole function (lines 40 to 156). The line printed before \<^verbatim>\<open>soft_exit\<close> shows
  the buffer \<^verbatim>\<open>id\<close> before anything was copied into it; its text is left out. The
  overload that takes a \<^verbatim>\<open>GenomeIndex\<close> (line 34) passes its genome to this one.
\<close>

definition copiedId :: "Read \<Rightarrow> string" where
  \<comment> \<open>lines 60 to 62: the local buffer \<^verbatim>\<open>id\<close> as a C string\<close>
  "copiedId rd = strncpy_terminated (getId rd) (min (getIdLength rd) (1024 - 1))"

definition wgsimReadMisaligned ::
  "Read \<Rightarrow> u32 \<Rightarrow> Genome \<Rightarrow> s32 \<Rightarrow> ptr \<Rightarrow> ptr \<Rightarrow> store \<Rightarrow> result" where
  "wgsimReadMisaligned rd genomeLocation genome maxK lowOut highOut st =
     (if getIdLength rd > 1024 - 1 then soft_exit 1
      else
        case wgsimInterval genome (copiedId rd) of
          Inl msg \<Rightarrow> Return False (Some msg) st
        | Inr (low, high) \<Rightarrow>
            Return (misaligned genomeLocation low high maxK) None
              (store_through highOut high (store_through lowOut low st)))"

section \<open>wgsimGenerateIDString\<close>

text \<open>
  Line 163: \<^verbatim>\<open>sprintf(outputBuffer, "%s_%d_%d_0::0:0_2:0:a0_0/%d", contig->name,
  offsetInContig + 1, offsetInContig + readLength, firstHalf ? 1 : 2)\<close>. The two sums
  are \<^verbatim>\<open>unsigned\<close> and printed with \<^verbatim>\<open>%d\<close>. The result is the string written to the
  buffer. The overload that takes a location in the genome (line 167) finds the contig
  and calls this one.
\<close>

definition wgsimGenerateIDString :: "Contig \<Rightarrow> u32 \<Rightarrow> u32 \<Rightarrow> bool \<Rightarrow> string" where
  "wgsimGenerateIDString contig offsetInContig readLength firstHalf =
     c_string (name contig) @ ''_'' @ printf_d (sint (offsetInContig + 1)) @ ''_''
       @ printf_d (sint (offsetInContig + readLength)) @ ''_0::0:0_2:0:a0_0/''
       @ printf_d (if firstHalf then 1 else 2)"

section \<open>Facts about the scans and the number formats\<close>

subsection \<open>strchr\<close>

lemma strchr_None_iff: "strchr s c = None \<longleftrightarrow> c \<notin> set s"
  by (induction s) auto

lemma strchr_Some:
  "strchr s c = Some i \<Longrightarrow> i < length s \<and> s ! i = c \<and> (\<forall>j<i. s ! j \<noteq> c)"
proof (induction s arbitrary: i)
  case Nil
  then show ?case by simp
next
  case (Cons x xs)
  show ?case
  proof (cases "x = c")
    case True
    with Cons.prems show ?thesis by simp
  next
    case False
    with Cons.prems obtain k where k: "strchr xs c = Some k" "i = Suc k"
      by auto
    from Cons.IH [OF k(1)] False k(2) show ?thesis
      by (auto simp: nth_Cons split: nat.splits)
  qed
qed

lemma strchr_append:
  "c \<notin> set xs \<Longrightarrow> strchr (xs @ c # ys) c = Some (length xs)"
  by (induction xs) auto

subsection \<open>underscore_before\<close>

lemma underscore_before_None_iff:
  "underscore_before s n = None \<longleftrightarrow> (\<forall>j<n. s ! j \<noteq> CHR ''_'')"
  by (induction n) (auto simp: less_Suc_eq)

lemma underscore_before_Some:
  "underscore_before s n = Some i \<Longrightarrow>
     i < n \<and> s ! i = CHR ''_'' \<and> (\<forall>j. i < j \<and> j < n \<longrightarrow> s ! j \<noteq> CHR ''_'')"
proof (induction n)
  case 0
  then show ?case by simp
next
  case (Suc n)
  show ?case
  proof (cases "s ! n = CHR ''_''")
    case True
    with Suc.prems show ?thesis by auto
  next
    case False
    with Suc.prems have "underscore_before s n = Some i" by simp
    from Suc.IH [OF this] False show ?thesis
      by (auto simp: less_Suc_eq)
  qed
qed

lemma underscore_before_append:
  "CHR ''_'' \<notin> set ys \<Longrightarrow>
     underscore_before (xs @ CHR ''_'' # ys @ zs) (Suc (length xs + length ys)) = Some (length xs)"
proof (induction ys arbitrary: zs rule: rev_induct)
  case Nil
  then show ?case by simp
next
  case (snoc y ys)
  from snoc.prems have y: "y \<noteq> CHR ''_''" and ys: "CHR ''_'' \<notin> set ys" by auto
  have nth: "(xs @ CHR ''_'' # (ys @ [y]) @ zs) ! Suc (length xs + length ys) = y"
    by (simp add: nth_append)
  have "underscore_before (xs @ CHR ''_'' # (ys @ [y]) @ zs) (Suc (length xs + length (ys @ [y])))
      = underscore_before (xs @ CHR ''_'' # (ys @ [y]) @ zs) (Suc (length xs + length ys))"
    using nth y by simp
  also have "\<dots> = underscore_before (xs @ CHR ''_'' # ys @ (y # zs)) (Suc (length xs + length ys))"
    by simp
  also have "\<dots> = Some (length xs)"
    using snoc.IH [OF ys] .
  finally show ?case .
qed

subsection \<open>decimal digits\<close>

lemma digit_char_isdigit: "d < 10 \<Longrightarrow> isdigit (digit_char d)"
  by (simp add: isdigit_def digit_char_def)

lemma digit_char_value: "d < 10 \<Longrightarrow> digit_value (digit_char d) = d"
  by (simp add: digit_value_def digit_char_def)

lemma decimal_digits: "c \<in> set (decimal n) \<Longrightarrow> isdigit c"
proof (induction n rule: decimal.induct)
  case (1 n)
  then show ?case
    by (subst (asm) decimal.simps) (auto simp: digit_char_isdigit split: if_splits)
qed

lemma decimal_not_Nil: "decimal n \<noteq> []"
  by (subst decimal.simps) simp

lemma read_digits_decimal:
  "read_digits acc (decimal n @ rest) = read_digits (acc * 10 ^ length (decimal n) + n) rest"
proof (induction n arbitrary: acc rest rule: decimal.induct)
  case (1 n)
  show ?case
  proof (cases "n < 10")
    case True
    then show ?thesis
      by (subst (1 2) decimal.simps) (simp add: digit_char_isdigit digit_char_value)
  next
    case False
    have step: "decimal n = decimal (n div 10) @ [digit_char (n mod 10)]"
      using False by (subst decimal.simps) simp
    have "read_digits acc (decimal n @ rest)
        = read_digits acc (decimal (n div 10) @ digit_char (n mod 10) # rest)"
      by (simp add: step)
    also have "\<dots> = read_digits (acc * 10 ^ length (decimal (n div 10)) + n div 10)
                        (digit_char (n mod 10) # rest)"
      using "1.IH" [OF False] .
    also have "\<dots> = read_digits ((acc * 10 ^ length (decimal (n div 10)) + n div 10) * 10 + n mod 10) rest"
      by (simp add: digit_char_isdigit digit_char_value)
    also have "(acc * 10 ^ length (decimal (n div 10)) + n div 10) * 10 + n mod 10
        = acc * 10 ^ length (decimal n) + n"
      by (simp add: step algebra_simps)
    finally show ?thesis .
  qed
qed

lemma read_digits_stop: "\<not> starts_with_digit rest \<Longrightarrow> read_digits acc rest = acc"
  by (cases rest) (auto simp: starts_with_digit_def)

lemma isdigit_not_space: "isdigit c \<Longrightarrow> \<not> isspace c"
  by (auto simp: isdigit_def isspace_def)

lemma isdigit_not_sign: "isdigit c \<Longrightarrow> c \<noteq> CHR ''-'' \<and> c \<noteq> CHR ''+''"
  by (auto simp: isdigit_def)

lemma starts_with_digit_decimal: "starts_with_digit (decimal n @ rest)"
proof -
  obtain c cs where "decimal n = c # cs"
    using decimal_not_Nil by (cases "decimal n") auto
  moreover from this have "isdigit c"
    using decimal_digits [of c n] by simp
  ultimately show ?thesis by (simp add: starts_with_digit_def)
qed

lemma sscanf_d_printf_d:
  assumes "\<not> starts_with_digit rest"
  shows "sscanf_d (printf_d i @ rest) = Some i"
proof (cases "i < 0")
  case True
  have "read_digits 0 (decimal (nat (- i)) @ rest) = nat (- i)"
    using read_digits_decimal [of 0 "nat (- i)" rest] read_digits_stop [OF assms] by simp
  with True show ?thesis
    by (simp add: sscanf_d_def printf_d_def isspace_def starts_with_digit_decimal)
next
  case False
  obtain c cs where d: "decimal (nat i) = c # cs"
    using decimal_not_Nil by (cases "decimal (nat i)") auto
  then have c: "isdigit c"
    using decimal_digits [of c "nat i"] by simp
  have "read_digits 0 (decimal (nat i) @ rest) = nat i"
    using read_digits_decimal [of 0 "nat i" rest] read_digits_stop [OF assms] by simp
  then have "read_digits 0 (c # cs @ rest) = nat i"
    by (simp add: d)
  with False c show ?thesis
    using isdigit_not_space [OF c] isdigit_not_sign [OF c]
    by (simp add: sscanf_d_def printf_d_def d)
qed

lemma stored_sint: "stored_as_unsigned (sint (w :: u32)) = w"
  by (simp add: stored_as_unsigned_def)

subsection \<open>An identifier laid out as the printer writes it\<close>

lemma wgsimParseId_layout:
  assumes colon: "CHR '':'' \<notin> set nm" "CHR '':'' \<notin> set d1" "CHR '':'' \<notin> set d2"
      "CHR '':'' \<notin> set flags"
    and us: "CHR ''_'' \<notin> set d1" "CHR ''_'' \<notin> set d2" "CHR ''_'' \<notin> set flags"
    and d2: "d2 \<noteq> []"
    and v1: "sscanf_d (d1 @ CHR ''_'' # d2 @ CHR ''_'' # flags @ CHR '':'' # rest) = Some v1"
    and v2: "sscanf_d (d2 @ CHR ''_'' # flags @ CHR '':'' # rest) = Some v2"
    and len: "length nm < contigNameMaxSize"
  shows "wgsimParseId (nm @ CHR ''_'' # d1 @ CHR ''_'' # d2 @ CHR ''_'' # flags @ CHR '':'' # rest)
           = Inr (nm, stored_as_unsigned v1, stored_as_unsigned v2)"
proof -
  define s where "s = nm @ CHR ''_'' # d1 @ CHR ''_'' # d2 @ CHR ''_'' # flags @ CHR '':'' # rest"
  define u3 where "u3 = length nm"
  define u2 where "u2 = Suc (u3 + length d1)"
  define u1 where "u1 = Suc (u2 + length d2)"
  define c where "c = Suc (u1 + length flags)"
  have s_colon: "s = (nm @ CHR ''_'' # d1 @ CHR ''_'' # d2 @ CHR ''_'' # flags) @ CHR '':'' # rest"
    by (simp add: s_def)
  have "strchr s CHR '':'' = Some (length (nm @ CHR ''_'' # d1 @ CHR ''_'' # d2 @ CHR ''_'' # flags))"
    unfolding s_colon by (rule strchr_append) (use colon in simp)
  then have c: "strchr s CHR '':'' = Some c"
    by (simp add: c_def u1_def u2_def u3_def)
  have s1: "s = (nm @ CHR ''_'' # d1 @ CHR ''_'' # d2) @ CHR ''_'' # flags @ (CHR '':'' # rest)"
    by (simp add: s_def)
  have i1: "length (nm @ CHR ''_'' # d1 @ CHR ''_'' # d2) = u1"
    by (simp add: u1_def u2_def u3_def)
  have "underscore_before s (Suc (length (nm @ CHR ''_'' # d1 @ CHR ''_'' # d2) + length flags))
      = Some (length (nm @ CHR ''_'' # d1 @ CHR ''_'' # d2))"
    unfolding s1 by (rule underscore_before_append) (rule us(3))
  then have p1: "underscore_before s c = Some u1"
    unfolding i1 c_def .
  have s2: "s = (nm @ CHR ''_'' # d1) @ CHR ''_'' # d2 @ (CHR ''_'' # flags @ CHR '':'' # rest)"
    by (simp add: s_def)
  have i2: "length (nm @ CHR ''_'' # d1) = u2"
    by (simp add: u2_def u3_def)
  have "underscore_before s (Suc (length (nm @ CHR ''_'' # d1) + length d2))
      = Some (length (nm @ CHR ''_'' # d1))"
    unfolding s2 by (rule underscore_before_append) (rule us(2))
  then have p2: "underscore_before s u1 = Some u2"
    unfolding i2 u1_def .
  have s3: "s = nm @ CHR ''_'' # d1 @ (CHR ''_'' # d2 @ CHR ''_'' # flags @ CHR '':'' # rest)"
    by (simp add: s_def)
  have "underscore_before s (Suc (length nm + length d1)) = Some (length nm)"
    unfolding s3 by (rule underscore_before_append) (rule us(1))
  then have p3: "underscore_before s u2 = Some u3"
    unfolding u2_def u3_def .
  have "drop (u3 + 1) s = d1 @ CHR ''_'' # d2 @ CHR ''_'' # flags @ CHR '':'' # rest"
    by (simp add: s_def u3_def)
  then have r1: "sscanf_d (drop (u3 + 1) s) = Some v1"
    using v1 by simp
  have "drop (u2 + 1) s = d2 @ CHR ''_'' # flags @ CHR '':'' # rest"
    by (simp add: s_def u2_def u3_def)
  then have r2: "sscanf_d (drop (u2 + 1) s) = Some v2"
    using v2 by simp
  have nonadj: "u1 \<noteq> u2 + 1"
    using d2 by (simp add: u1_def)
  have nm: "take u3 s = nm"
    by (simp add: s_def u3_def)
  have short: "\<not> contigNameMaxSize \<le> u3"
    using len by (simp add: u3_def)
  show ?thesis
    unfolding s_def [symmetric]
    using r1 r2 nonadj by (simp add: wgsimParseId_def c p1 p2 p3 nm short)
qed

lemma printf_d_chars: "c \<in> set (printf_d i) \<Longrightarrow> c = CHR ''-'' \<or> isdigit c"
  by (auto simp: printf_d_def dest: decimal_digits split: if_splits)

lemma printf_d_no_colon: "CHR '':'' \<notin> set (printf_d i)"
  using printf_d_chars [of "CHR '':''" i] by (auto simp: isdigit_def)

lemma printf_d_no_underscore: "CHR ''_'' \<notin> set (printf_d i)"
  using printf_d_chars [of "CHR ''_''" i] by (auto simp: isdigit_def)

lemma printf_d_no_nul: "CHR 0x00 \<notin> set (printf_d i)"
  using printf_d_chars [of "CHR 0x00" i] by (auto simp: isdigit_def)

lemma printf_d_not_Nil: "printf_d i \<noteq> []"
  by (simp add: printf_d_def decimal_not_Nil)

lemma c_string_id: "CHR 0x00 \<notin> set bs \<Longrightarrow> c_string bs = bs"
  by (auto simp: c_string_def)

lemma wgsimParseId_generated:
  assumes "CHR '':'' \<notin> set (name contig)" "CHR 0x00 \<notin> set (name contig)"
    "length (name contig) < contigNameMaxSize"
  shows "wgsimParseId (wgsimGenerateIDString contig offsetInContig readLength firstHalf)
           = Inr (name contig, offsetInContig + 1, offsetInContig + readLength)"
proof -
  let ?d1 = "printf_d (sint (offsetInContig + 1))"
  let ?d2 = "printf_d (sint (offsetInContig + readLength))"
  let ?rest = "'':0:0_2:0:a0_0/'' @ printf_d (if firstHalf then 1 else 2)"
  have shape: "wgsimGenerateIDString contig offsetInContig readLength firstHalf
      = name contig @ CHR ''_'' # ?d1 @ CHR ''_'' # ?d2 @ CHR ''_'' # ''0'' @ CHR '':'' # ?rest"
    using assms(2) by (simp add: wgsimGenerateIDString_def c_string_id)
  have stop: "\<not> starts_with_digit (CHR ''_'' # xs)" for xs
    by (simp add: starts_with_digit_def isdigit_def)
  have v1: "sscanf_d (?d1 @ CHR ''_'' # ?d2 @ CHR ''_'' # ''0'' @ CHR '':'' # ?rest)
      = Some (sint (offsetInContig + 1))"
    by (rule sscanf_d_printf_d) (rule stop)
  have v2: "sscanf_d (?d2 @ CHR ''_'' # ''0'' @ CHR '':'' # ?rest)
      = Some (sint (offsetInContig + readLength))"
    by (rule sscanf_d_printf_d) (rule stop)
  have "wgsimParseId (name contig @ CHR ''_'' # ?d1 @ CHR ''_'' # ?d2 @ CHR ''_'' # ''0'' @ CHR '':'' # ?rest)
      = Inr (name contig, stored_as_unsigned (sint (offsetInContig + 1)),
             stored_as_unsigned (sint (offsetInContig + readLength)))"
    using assms(1) printf_d_no_colon printf_d_no_underscore printf_d_not_Nil v1 v2 assms(3)
    by (intro wgsimParseId_layout) simp_all
  then show ?thesis
    by (simp only: shape stored_sint)
qed

lemma decimal_length: "n < 10 ^ k \<Longrightarrow> 0 < k \<Longrightarrow> length (decimal n) \<le> k"
proof (induction k arbitrary: n)
  case 0
  then show ?case by simp
next
  case (Suc k)
  show ?case
  proof (cases "n < 10")
    case True
    then show ?thesis by (subst decimal.simps) simp
  next
    case False
    with Suc.prems have k: "0 < k" by (cases k) auto
    from Suc.prems have "n div 10 < 10 ^ k" by (simp add: less_mult_imp_div_less mult.commute)
    from Suc.IH [OF this k] False show ?thesis
      by (subst decimal.simps) simp
  qed
qed

lemma printf_d_length: "length (printf_d (sint (w :: u32))) \<le> 11"
proof -
  have lo: "- (2 ^ 31) \<le> sint w" using sint_ge [of w] by simp
  have hi: "sint w < 2 ^ 31" using sint_lt [of w] by simp
  show ?thesis
  proof (cases "sint w < 0")
    case True
    with lo have "nat (- sint w) < 10 ^ 10" by simp
    then have "length (decimal (nat (- sint w))) \<le> 10" by (rule decimal_length) simp
    with True show ?thesis by (simp add: printf_d_def)
  next
    case False
    with hi have "nat (sint w) < 10 ^ 10" by simp
    then have "length (decimal (nat (sint w))) \<le> 10" by (rule decimal_length) simp
    with False show ?thesis by (simp add: printf_d_def)
  qed
qed

lemma printf_d_1: "printf_d 1 = ''1''"
  by code_simp

lemma printf_d_2: "printf_d 2 = ''2''"
  by code_simp

lemma printf_d_half: "printf_d (if firstHalf then 1 else 2) = (if firstHalf then ''1'' else ''2'')"
  by (simp add: printf_d_1 printf_d_2)

lemma generated_length:
  "length (wgsimGenerateIDString contig offsetInContig readLength firstHalf)
     \<le> length (name contig) + 42"
proof -
  have "length (c_string (name contig)) \<le> length (name contig)"
    by (simp add: c_string_def length_takeWhile_le)
  moreover note printf_d_length [of "offsetInContig + 1"]
    printf_d_length [of "offsetInContig + readLength"]
  ultimately show ?thesis
    by (simp add: wgsimGenerateIDString_def printf_d_half)
qed

lemma generated_no_nul:
  "CHR 0x00 \<notin> set (wgsimGenerateIDString contig offsetInContig readLength firstHalf)"
proof -
  have "CHR 0x00 \<notin> set (c_string (name contig))"
    using set_takeWhileD [of "CHR 0x00" "\<lambda>c. c \<noteq> CHR 0x00" "name contig"]
    by (auto simp: c_string_def)
  then show ?thesis
    by (simp add: wgsimGenerateIDString_def printf_d_no_nul printf_d_half)
qed

lemma copiedId_generated:
  assumes "length (name contig) < contigNameMaxSize"
  shows "getIdLength \<lparr>idBytes = wgsimGenerateIDString contig offsetInContig readLength firstHalf\<rparr> \<le> 1023"
    and "copiedId \<lparr>idBytes = wgsimGenerateIDString contig offsetInContig readLength firstHalf\<rparr>
           = wgsimGenerateIDString contig offsetInContig readLength firstHalf"
proof -
  let ?g = "wgsimGenerateIDString contig offsetInContig readLength firstHalf"
  from assms generated_length [of contig offsetInContig readLength firstHalf]
  have len: "length ?g \<le> 1023"
    by (simp add: contigNameMaxSize_def)
  then show "getIdLength \<lparr>idBytes = ?g\<rparr> \<le> 1023"
    by (simp add: getIdLength_def)
  from len show "copiedId \<lparr>idBytes = ?g\<rparr> = ?g"
    using generated_no_nul [of contig offsetInContig readLength firstHalf]
    by (simp add: copiedId_def getId_def getIdLength_def strncpy_terminated_def c_string_id)
qed


subsection \<open>What a successful parse tells\<close>

lemma wgsimParseId_Inr:
  assumes "wgsimParseId ident = Inr (contigName, offset1, offset2)"
  shows "\<exists>c u1 u2 u3 v1.
      strchr ident CHR '':'' = Some c \<and> underscore_before ident c = Some u1 \<and>
      underscore_before ident u1 = Some u2 \<and> underscore_before ident u2 = Some u3 \<and>
      sscanf_d (drop (u3 + 1) ident) = Some v1 \<and> offset1 = stored_as_unsigned v1 \<and>
      (if u1 = u2 + 1 then offset2 = offset1
       else \<exists>v2. sscanf_d (drop (u2 + 1) ident) = Some v2 \<and> offset2 = stored_as_unsigned v2) \<and>
      u3 < contigNameMaxSize \<and> contigName = take u3 ident"
proof -
  from assms obtain c where c: "strchr ident CHR '':'' = Some c"
    by (cases "strchr ident CHR '':''") (simp_all add: wgsimParseId_def)
  from assms c obtain u1 where u1: "underscore_before ident c = Some u1"
    by (cases "underscore_before ident c") (simp_all add: wgsimParseId_def)
  from assms c u1 obtain u2 where u2: "underscore_before ident u1 = Some u2"
    by (cases "underscore_before ident u1") (simp_all add: wgsimParseId_def)
  from assms c u1 u2 obtain u3 where u3: "underscore_before ident u2 = Some u3"
    by (cases "underscore_before ident u2") (simp_all add: wgsimParseId_def)
  from assms c u1 u2 u3 obtain v1 where v1: "sscanf_d (drop (u3 + 1) ident) = Some v1"
    by (cases "sscanf_d (drop (u3 + 1) ident)") (simp_all add: wgsimParseId_def)
  show ?thesis
  proof (cases "u1 = u2 + 1")
    case True
    with assms c u1 u2 u3 v1 show ?thesis
      by (simp add: wgsimParseId_def split: if_splits)
  next
    case False
    with assms c u1 u2 u3 v1 obtain v2 where v2: "sscanf_d (drop (u2 + 1) ident) = Some v2"
      by (cases "sscanf_d (drop (u2 + 1) ident)") (simp_all add: wgsimParseId_def)
    with assms c u1 u2 u3 v1 False show ?thesis
      by (simp add: wgsimParseId_def split: if_splits)
  qed
qed

lemma parse_positions:
  assumes c: "strchr ident CHR '':'' = Some c"
    and u1: "underscore_before ident c = Some u1"
    and u2: "underscore_before ident u1 = Some u2"
    and u3: "underscore_before ident u2 = Some u3"
  shows "c < length ident \<and> ident ! c = CHR '':'' \<and> (\<forall>j<c. ident ! j \<noteq> CHR '':'') \<and>
     u3 < u2 \<and> u2 < u1 \<and> u1 < c \<and>
     (\<forall>j. u3 \<le> j \<and> j < c \<longrightarrow> (ident ! j = CHR ''_'' \<longleftrightarrow> j = u3 \<or> j = u2 \<or> j = u1))"
proof -
  note C = strchr_Some [OF c]
  note U1 = underscore_before_Some [OF u1]
  note U2 = underscore_before_Some [OF u2]
  note U3 = underscore_before_Some [OF u3]
  have other: "ident ! j \<noteq> CHR ''_''" if "u3 < j" "j < c" "j \<noteq> u2" "j \<noteq> u1" for j
  proof (cases "j < u2")
    case True
    with that(1) U3 show ?thesis by blast
  next
    case False
    with that(3) have lo: "u2 < j" by simp
    show ?thesis
    proof (cases "j < u1")
      case True
      with lo U2 show ?thesis by blast
    next
      case False
      with that(4) have "u1 < j" by simp
      with that(2) U1 show ?thesis by blast
    qed
  qed
  have "ident ! j = CHR ''_'' \<longleftrightarrow> j = u3 \<or> j = u2 \<or> j = u1" if "u3 \<le> j" "j < c" for j
  proof (cases "j = u3 \<or> j = u2 \<or> j = u1")
    case True
    with U1 U2 U3 show ?thesis by auto
  next
    case False
    with that have "u3 < j" by simp
    from other [OF this that(2)] False show ?thesis by simp
  qed
  with C U1 U2 U3 show ?thesis by blast
qed

lemma read_digits_underscore:
  "read_digits acc (a @ CHR ''_'' # b) = read_digits acc a"
  by (induction a arbitrary: acc) (auto simp: isdigit_def)

lemma starts_with_digit_underscore:
  "starts_with_digit (a @ CHR ''_'' # b) = starts_with_digit a"
  by (cases a) (auto simp: starts_with_digit_def isdigit_def)

lemma underscore_not_space: "\<not> isspace CHR ''_''"
  by (simp add: isspace_def)

lemma sscanf_d_underscore: "sscanf_d (a @ CHR ''_'' # b) = sscanf_d a"
proof (cases "dropWhile isspace a")
  case Nil
  then have "\<forall>x\<in>set a. isspace x" by (simp add: dropWhile_eq_Nil_conv)
  then have "dropWhile isspace (a @ CHR ''_'' # b) = CHR ''_'' # b"
    by (simp add: dropWhile_append2 underscore_not_space)
  then show ?thesis
    unfolding sscanf_d_def Nil by (simp add: isdigit_def)
next
  case (Cons x xs)
  then have "\<exists>y\<in>set a. \<not> isspace y"
    by (metis dropWhile_eq_Nil_conv list.distinct(1))
  then have "dropWhile isspace (a @ CHR ''_'' # b) = dropWhile isspace a @ CHR ''_'' # b"
    by (auto simp: dropWhile_append1)
  then show ?thesis
    unfolding sscanf_d_def Cons
    using read_digits_underscore [of 0 "x # xs" b]
    by (simp add: read_digits_underscore starts_with_digit_underscore)
qed

lemma drop_to_underscore:
  assumes "u2 < u1" "u1 < length ident" "ident ! u1 = CHR ''_''"
  shows "drop (Suc u2) ident
           = take (u1 - Suc u2) (drop (Suc u2) ident) @ CHR ''_'' # drop (Suc u1) ident"
proof -
  have "drop (Suc u2) ident
      = take (u1 - Suc u2) (drop (Suc u2) ident) @ drop (u1 - Suc u2) (drop (Suc u2) ident)"
    by (rule append_take_drop_id [symmetric])
  also have "drop (u1 - Suc u2) (drop (Suc u2) ident) = drop u1 ident"
    using assms(1) by simp
  also have "drop u1 ident = ident ! u1 # drop (Suc u1) ident"
    using assms(2) by (simp add: Cons_nth_drop_Suc)
  finally show ?thesis using assms(3) by simp
qed

lemma underscore_before_count:
  "n \<le> length s \<Longrightarrow>
     (case underscore_before s n of
        None \<Rightarrow> count_list (take n s) CHR ''_'' = 0
      | Some i \<Rightarrow> count_list (take n s) CHR ''_'' = Suc (count_list (take i s) CHR ''_''))"
proof (induction n)
  case 0
  then show ?case by simp
next
  case (Suc n)
  then have n: "n < length s" by simp
  then have t: "take (Suc n) s = take n s @ [s ! n]"
    by (simp add: take_Suc_conv_app_nth)
  show ?case
  proof (cases "s ! n = CHR ''_''")
    case True
    then show ?thesis by (simp add: t)
  next
    case False
    with Suc.IH n show ?thesis
      by (simp add: t split: option.splits)
  qed
qed

subsection \<open>The comparison in unbounded integers\<close>

lemma uint_plus_sint:
  "uint (a + k :: u32) = (uint a + sint k) mod 2 ^ 32"
proof -
  have "uint k = sint k mod 2 ^ 32"
    by (simp add: uint_sint take_bit_eq_mod)
  then have "(uint a + uint k) mod 2 ^ 32 = (uint a + sint k) mod 2 ^ 32"
    by (simp add: mod_add_right_eq)
  then show ?thesis
    by (simp add: uint_word_ariths)
qed

lemma misaligned_wraps:
  "misaligned genomeLocation low high maxK \<longleftrightarrow>
     uint genomeLocation > (uint high + sint maxK) mod 2 ^ 32
   \<or> (uint genomeLocation + sint maxK) mod 2 ^ 32 < uint low"
  by (simp add: misaligned_def word_less_alt uint_plus_sint)

lemma uint_lt32: "uint (w :: u32) < 2 ^ 32"
  using uint_lt2p [of w] by simp

lemma misaligned_exact:
  assumes "0 \<le> sint maxK"
    and "uint high + sint maxK < 2 ^ 32"
    and "uint genomeLocation + sint maxK < 2 ^ 32"
  shows "misaligned genomeLocation low high maxK \<longleftrightarrow>
     uint genomeLocation > uint high + sint maxK \<or> uint genomeLocation + sint maxK < uint low"
proof -
  have "(uint high + sint maxK) mod 2 ^ 32 = uint high + sint maxK"
    using assms(1,2) by (intro mod_pos_pos_trivial) simp_all
  moreover have "(uint genomeLocation + sint maxK) mod 2 ^ 32 = uint genomeLocation + sint maxK"
    using assms(1,3) by (intro mod_pos_pos_trivial) simp_all
  ultimately show ?thesis
    by (simp add: misaligned_wraps)
qed

lemma misaligned_never_missed:
  assumes k: "0 \<le> sint maxK"
    and out: "uint genomeLocation > uint high + sint maxK \<or> uint genomeLocation + sint maxK < uint low"
  shows "misaligned genomeLocation low high maxK"
proof -
  from out show ?thesis
  proof
    assume above: "uint genomeLocation > uint high + sint maxK"
    with uint_lt32 [of genomeLocation] have "uint high + sint maxK < 2 ^ 32" by simp
    then have "(uint high + sint maxK) mod 2 ^ 32 = uint high + sint maxK"
      using k by (intro mod_pos_pos_trivial) simp_all
    with above show ?thesis by (simp add: misaligned_wraps)
  next
    assume below: "uint genomeLocation + sint maxK < uint low"
    with uint_lt32 [of low] have "uint genomeLocation + sint maxK < 2 ^ 32" by simp
    then have "(uint genomeLocation + sint maxK) mod 2 ^ 32 = uint genomeLocation + sint maxK"
      using k by (intro mod_pos_pos_trivial) simp_all
    with below show ?thesis by (simp add: misaligned_wraps)
  qed
qed

subsection \<open>Which step fails\<close>

lemma parse_by_count:
  assumes c: "strchr ident CHR '':'' = Some c"
  shows "(count_list (take c ident) CHR ''_'' = 0 \<longrightarrow>
            wgsimParseId ident = Inl (MissingUnderscore1, ident))
       \<and> (count_list (take c ident) CHR ''_'' = 1 \<longrightarrow>
            wgsimParseId ident = Inl (MissingUnderscore2, ident))
       \<and> (count_list (take c ident) CHR ''_'' = 2 \<longrightarrow>
            wgsimParseId ident = Inl (MissingUnderscore3, ident))
       \<and> (3 \<le> count_list (take c ident) CHR ''_'' \<longrightarrow>
            (\<exists>u1 u2 u3. underscore_before ident c = Some u1 \<and>
               underscore_before ident u1 = Some u2 \<and> underscore_before ident u2 = Some u3))"
proof -
  from strchr_Some [OF c] have c_le: "c \<le> length ident" by simp
  note k0 = underscore_before_count [OF c_le]
  show ?thesis
  proof (cases "underscore_before ident c")
    case None
    with k0 c show ?thesis by (simp add: wgsimParseId_def)
  next
    case u1: (Some u1)
    from underscore_before_Some [OF u1] c_le have u1_le: "u1 \<le> length ident" by simp
    note k1 = underscore_before_count [OF u1_le]
    show ?thesis
    proof (cases "underscore_before ident u1")
      case None
      with k0 k1 c u1 show ?thesis by (simp add: wgsimParseId_def)
    next
      case u2: (Some u2)
      from underscore_before_Some [OF u2] u1_le have u2_le: "u2 \<le> length ident" by simp
      note k2 = underscore_before_count [OF u2_le]
      show ?thesis
      proof (cases "underscore_before ident u2")
        case None
        with k0 k1 k2 c u1 u2 show ?thesis by (simp add: wgsimParseId_def)
      next
        case u3: (Some u3)
        with k0 k1 k2 c u1 u2 show ?thesis by simp
      qed
    qed
  qed
qed

lemma wgsimParseId_after_underscores:
  assumes c: "strchr ident CHR '':'' = Some c"
    and u1: "underscore_before ident c = Some u1"
    and u2: "underscore_before ident u1 = Some u2"
    and u3: "underscore_before ident u2 = Some u3"
  shows "(sscanf_d (drop (u3 + 1) ident) = None \<longrightarrow>
            wgsimParseId ident = Inl (BadOffset1, ident))
       \<and> (\<forall>v1. sscanf_d (drop (u3 + 1) ident) = Some v1 \<longrightarrow>
            (u1 \<noteq> u2 + 1 \<and> sscanf_d (drop (u2 + 1) ident) = None \<longrightarrow>
               wgsimParseId ident = Inl (BadOffset2, ident))
          \<and> (\<forall>v2. (if u1 = u2 + 1 then v2 = v1
                     else sscanf_d (drop (u2 + 1) ident) = Some v2) \<longrightarrow>
                (contigNameMaxSize \<le> u3 \<longrightarrow>
                   wgsimParseId ident = Inl (ContigNameTooLong, ident))
              \<and> (u3 < contigNameMaxSize \<longrightarrow>
                   wgsimParseId ident
                     = Inr (take u3 ident, stored_as_unsigned v1, stored_as_unsigned v2))))"
  using c u1 u2 u3 by (simp add: wgsimParseId_def)

lemma wgsimParseId_offset2:
  assumes c: "strchr ident CHR '':'' = Some c"
    and u1: "underscore_before ident c = Some u1"
    and u2: "underscore_before ident u1 = Some u2"
    and u3: "underscore_before ident u2 = Some u3"
    and v1: "sscanf_d (drop (u3 + 1) ident) = Some v1"
    and short: "u3 < contigNameMaxSize"
  shows "(u1 = u2 + 1 \<longrightarrow>
            wgsimParseId ident = Inr (take u3 ident, stored_as_unsigned v1, stored_as_unsigned v1))
       \<and> (u1 \<noteq> u2 + 1 \<longrightarrow>
            (case sscanf_d (take (u1 - (u2 + 1)) (drop (u2 + 1) ident)) of
               None \<Rightarrow> wgsimParseId ident = Inl (BadOffset2, ident)
             | Some v2 \<Rightarrow>
                 wgsimParseId ident
                   = Inr (take u3 ident, stored_as_unsigned v1, stored_as_unsigned v2)))"
proof -
  from strchr_Some [OF c] underscore_before_Some [OF u1] underscore_before_Some [OF u2]
  have "u2 < u1" "u1 < length ident" "ident ! u1 = CHR ''_''"
    by simp_all
  then have "drop (Suc u2) ident
      = take (u1 - Suc u2) (drop (Suc u2) ident) @ CHR ''_'' # drop (Suc u1) ident"
    by (rule drop_to_underscore)
  then have "sscanf_d (drop (Suc u2) ident) = sscanf_d (take (u1 - Suc u2) (drop (Suc u2) ident))"
    using sscanf_d_underscore [of "take (u1 - Suc u2) (drop (Suc u2) ident)" "drop (Suc u1) ident"]
    by simp
  then have seg: "sscanf_d (drop (u2 + 1) ident)
      = sscanf_d (take (u1 - (u2 + 1)) (drop (u2 + 1) ident))"
    by simp
  have ok: "\<not> contigNameMaxSize \<le> u3"
    using short by simp
  show ?thesis
  proof (intro conjI impI)
    assume "u1 = u2 + 1"
    with c u1 u2 u3 v1 ok
    show "wgsimParseId ident = Inr (take u3 ident, stored_as_unsigned v1, stored_as_unsigned v1)"
      by (simp add: wgsimParseId_def)
  next
    assume far: "u1 \<noteq> u2 + 1"
    show "case sscanf_d (take (u1 - (u2 + 1)) (drop (u2 + 1) ident)) of
               None \<Rightarrow> wgsimParseId ident = Inl (BadOffset2, ident)
             | Some v2 \<Rightarrow>
                 wgsimParseId ident
                   = Inr (take u3 ident, stored_as_unsigned v1, stored_as_unsigned v2)"
    proof (cases "sscanf_d (take (u1 - (u2 + 1)) (drop (u2 + 1) ident))")
      case None
      with seg have "sscanf_d (drop (u2 + 1) ident) = None" by simp
      with c u1 u2 u3 v1 far have "wgsimParseId ident = Inl (BadOffset2, ident)"
        by (simp add: wgsimParseId_def)
      with None show ?thesis by simp
    next
      case (Some v2)
      with seg have "sscanf_d (drop (u2 + 1) ident) = Some v2" by simp
      with c u1 u2 u3 v1 far ok
      have "wgsimParseId ident = Inr (take u3 ident, stored_as_unsigned v1, stored_as_unsigned v2)"
        by (simp add: wgsimParseId_def)
      with Some show ?thesis by simp
    qed
  qed
qed

section \<open>The verdict\<close>

text \<open>
  Two reads used as concrete inputs below. In a genome whose contig \<^verbatim>\<open>chr1\<close> starts
  at offset 0, the identifier \<^verbatim>\<open>chr1_101_201_0:\<close> names the interval [100, 200].
\<close>

lemma sample_length: "getIdLength \<lparr>idBytes = ''chr1_101_201_0:''\<rparr> \<le> 1023"
  by (simp add: getIdLength_def)

lemma sample_interval:
  "wgsimInterval [''chr1'' \<mapsto> 0] (copiedId \<lparr>idBytes = ''chr1_101_201_0:''\<rparr>) = Inr (100, 200)"
  by code_simp

text \<open>
  Claim C1, as the specification has it: for every decoded interval [low, high], every
  location and every non-negative \<open>maxK\<close>, the function reports misaligned exactly when
  the location is greater than \<open>high + maxK\<close> or the location plus \<open>maxK\<close> is less than
  \<open>low\<close>, that is, when the location is not within \<open>maxK\<close> of the interval.

  The code takes both sums in 32 bits. Contig \<^verbatim>\<open>chrY\<close> starts at offset
  \<open>2 ^ 32 - 256\<close>; the identifier \<^verbatim>\<open>chrY_1_251_0:\<close> names the interval
  \<open>[2 ^ 32 - 256, 2 ^ 32 - 6]\<close>. With \<open>maxK = 10\<close> the code's \<open>high + maxK\<close> is 4,
  and the location \<open>2 ^ 32 - 128\<close>, in the middle of the interval, is reported as
  misaligned.
\<close>

lemma end_of_genome_length: "getIdLength \<lparr>idBytes = ''chrY_1_251_0:''\<rparr> \<le> 1023"
  by (simp add: getIdLength_def)

lemma end_of_genome_interval:
  "wgsimInterval [''chrY'' \<mapsto> 0xFFFFFF00] (copiedId \<lparr>idBytes = ''chrY_1_251_0:''\<rparr>)
     = Inr (0xFFFFFF00, 0xFFFFFFFA)"
  by code_simp

theorem location_inside_interval_reported_misaligned:
  "wgsimInterval [''chrY'' \<mapsto> 0xFFFFFF00] (copiedId \<lparr>idBytes = ''chrY_1_251_0:''\<rparr>)
     = Inr (0xFFFFFF00, 0xFFFFFFFA)
   \<and> 0 \<le> sint (10 :: s32)
   \<and> retval (wgsimReadMisaligned \<lparr>idBytes = ''chrY_1_251_0:''\<rparr> 0xFFFFFF80
         [''chrY'' \<mapsto> 0xFFFFFF00] 10 None None (\<lambda>a. 0))
   \<and> \<not> (uint (0xFFFFFF80 :: u32) > uint (0xFFFFFFFA :: u32) + sint (10 :: s32)
        \<or> uint (0xFFFFFF80 :: u32) + sint (10 :: s32) < uint (0xFFFFFF00 :: u32))"
  using end_of_genome_length
  by (simp add: end_of_genome_interval wgsimReadMisaligned_def misaligned_def)

text \<open>
  Claim C1, amended. For every decoded interval [low, high], every location and every
  non-negative \<open>maxK\<close> such that neither \<open>high + maxK\<close> nor the location plus \<open>maxK\<close>
  reaches \<open>2 ^ 32\<close>, the function reports misaligned exactly when the location is
  greater than \<open>high + maxK\<close> or the location plus \<open>maxK\<close> is less than \<open>low\<close>. Without
  that condition the same holds with both sums taken modulo \<open>2 ^ 32\<close>. For the interval
  [100, 200] and \<open>maxK = 5\<close>, location 95 is aligned, 94 is misaligned, 205 is aligned
  and 206 is misaligned. (All numbers here are integers: \<open>uint\<close> reads a 32-bit
  unsigned value, \<open>sint\<close> reads \<open>maxK\<close>.)
\<close>

theorem verdict_is_tolerance_rule:
  "(\<forall>rd genome low high genomeLocation maxK lowOut highOut st.
      getIdLength rd \<le> 1023 \<and> wgsimInterval genome (copiedId rd) = Inr (low, high) \<longrightarrow>
        (0 \<le> sint maxK \<and> uint high + sint maxK < 2 ^ 32
           \<and> uint genomeLocation + sint maxK < 2 ^ 32 \<longrightarrow>
           (retval (wgsimReadMisaligned rd genomeLocation genome maxK lowOut highOut st) \<longleftrightarrow>
              uint genomeLocation > uint high + sint maxK
              \<or> uint genomeLocation + sint maxK < uint low))
      \<and> (retval (wgsimReadMisaligned rd genomeLocation genome maxK lowOut highOut st) \<longleftrightarrow>
            uint genomeLocation > (uint high + sint maxK) mod 2 ^ 32
            \<or> (uint genomeLocation + sint maxK) mod 2 ^ 32 < uint low))
   \<and> wgsimInterval [''chr1'' \<mapsto> 0] (copiedId \<lparr>idBytes = ''chr1_101_201_0:''\<rparr>) = Inr (100, 200)
   \<and> \<not> retval (wgsimReadMisaligned \<lparr>idBytes = ''chr1_101_201_0:''\<rparr> 95 [''chr1'' \<mapsto> 0] 5 lo hi m)
   \<and> retval (wgsimReadMisaligned \<lparr>idBytes = ''chr1_101_201_0:''\<rparr> 94 [''chr1'' \<mapsto> 0] 5 lo hi m)
   \<and> \<not> retval (wgsimReadMisaligned \<lparr>idBytes = ''chr1_101_201_0:''\<rparr> 205 [''chr1'' \<mapsto> 0] 5 lo hi m)
   \<and> retval (wgsimReadMisaligned \<lparr>idBytes = ''chr1_101_201_0:''\<rparr> 206 [''chr1'' \<mapsto> 0] 5 lo hi m)"
proof -
  have verdict: "retval (wgsimReadMisaligned rd genomeLocation genome maxK lowOut highOut st)
        = misaligned genomeLocation low high maxK"
    if "getIdLength rd \<le> 1023" "wgsimInterval genome (copiedId rd) = Inr (low, high)"
    for rd genome low high genomeLocation maxK lowOut highOut st
    using that by (simp add: wgsimReadMisaligned_def)
  have at: "retval (wgsimReadMisaligned \<lparr>idBytes = ''chr1_101_201_0:''\<rparr> x [''chr1'' \<mapsto> 0] 5 lo hi m)
      = (x > 200 + 5 \<or> x + 5 < 100)" for x
    by (simp add: verdict [OF sample_length sample_interval] misaligned_def)
  have general: "(0 \<le> sint maxK \<and> uint high + sint maxK < 2 ^ 32
           \<and> uint genomeLocation + sint maxK < 2 ^ 32 \<longrightarrow>
           (retval (wgsimReadMisaligned rd genomeLocation genome maxK lowOut highOut st) \<longleftrightarrow>
              uint genomeLocation > uint high + sint maxK
              \<or> uint genomeLocation + sint maxK < uint low))
      \<and> (retval (wgsimReadMisaligned rd genomeLocation genome maxK lowOut highOut st) \<longleftrightarrow>
            uint genomeLocation > (uint high + sint maxK) mod 2 ^ 32
            \<or> (uint genomeLocation + sint maxK) mod 2 ^ 32 < uint low)"
    if "getIdLength rd \<le> 1023 \<and> wgsimInterval genome (copiedId rd) = Inr (low, high)"
    for rd genome low high genomeLocation maxK lowOut highOut st
  proof (intro conjI impI)
    assume "0 \<le> sint maxK \<and> uint high + sint maxK < 2 ^ 32
           \<and> uint genomeLocation + sint maxK < 2 ^ 32"
    then have "misaligned genomeLocation low high maxK \<longleftrightarrow>
        uint genomeLocation > uint high + sint maxK \<or> uint genomeLocation + sint maxK < uint low"
      by (intro misaligned_exact) simp_all
    with that show "retval (wgsimReadMisaligned rd genomeLocation genome maxK lowOut highOut st) \<longleftrightarrow>
              uint genomeLocation > uint high + sint maxK
              \<or> uint genomeLocation + sint maxK < uint low"
      by (simp add: verdict)
  next
    from that show "retval (wgsimReadMisaligned rd genomeLocation genome maxK lowOut highOut st) \<longleftrightarrow>
            uint genomeLocation > (uint high + sint maxK) mod 2 ^ 32
            \<or> (uint genomeLocation + sint maxK) mod 2 ^ 32 < uint low"
      by (simp add: verdict misaligned_wraps)
  qed
  show ?thesis
    using general sample_interval by (simp add: at)
qed

theorem verdict_is_tolerance_rule_witness:
  "\<not> retval (wgsimReadMisaligned \<lparr>idBytes = ''chr1_101_201_0:''\<rparr> 95 [''chr1'' \<mapsto> 0] 5
         None None (\<lambda>a. 0))
   \<and> retval (wgsimReadMisaligned \<lparr>idBytes = ''chr1_101_201_0:''\<rparr> 94 [''chr1'' \<mapsto> 0] 5
         None None (\<lambda>a. 0))
   \<and> \<not> retval (wgsimReadMisaligned \<lparr>idBytes = ''chr1_101_201_0:''\<rparr> 205 [''chr1'' \<mapsto> 0] 5
         None None (\<lambda>a. 0))
   \<and> retval (wgsimReadMisaligned \<lparr>idBytes = ''chr1_101_201_0:''\<rparr> 206 [''chr1'' \<mapsto> 0] 5
         None None (\<lambda>a. 0))"
proof -
  have fits: "0 \<le> sint (5 :: s32) \<and> uint (200 :: u32) + sint (5 :: s32) < 2 ^ 32
      \<and> uint (x :: u32) + sint (5 :: s32) < 2 ^ 32"
    if "x \<in> {95, 94, 205, 206}" for x
    using that by auto
  note rule_at = verdict_is_tolerance_rule [THEN conjunct1, rule_format,
      where rd = "\<lparr>idBytes = ''chr1_101_201_0:''\<rparr>" and genome = "[''chr1'' \<mapsto> 0]"
        and low = 100 and high = 200 and maxK = 5 and lowOut = None and highOut = None
        and st = "\<lambda>a. 0",
      OF conjI [OF sample_length sample_interval], THEN conjunct1, rule_format, OF fits]
  show ?thesis
    using rule_at [of 95] rule_at [of 94] rule_at [of 205] rule_at [of 206] by simp
qed

text \<open>
  Claim C5, as the specification has it: the comparison tolerates \<open>high\<close> near the top
  of the unsigned range, the sums \<open>high + maxK\<close> and \<open>genomeLocation + maxK\<close> do not
  wrap around, and no candidate far above the interval is reported as aligned because
  of an overflow.

  The code adds 32-bit words and the sums do wrap. Contig \<^verbatim>\<open>chrX\<close> starts at offset
  \<open>2 ^ 32 - 6\<close>; the identifier \<^verbatim>\<open>chrX_5_6_0:\<close> names the interval
  \<open>[2 ^ 32 - 2, 2 ^ 32 - 1]\<close>. With \<open>maxK = 1\<close> the sum \<open>high + maxK\<close> is 0, and the
  location \<open>2 ^ 32 - 1\<close>, which lies inside the interval, is reported as misaligned.
\<close>

lemma top_length: "getIdLength \<lparr>idBytes = ''chrX_5_6_0:''\<rparr> \<le> 1023"
  by (simp add: getIdLength_def)

lemma top_interval:
  "wgsimInterval [''chrX'' \<mapsto> 0xFFFFFFFA] (copiedId \<lparr>idBytes = ''chrX_5_6_0:''\<rparr>)
     = Inr (0xFFFFFFFE, 0xFFFFFFFF)"
  by code_simp

theorem sum_wraps_at_top_of_range:
  "wgsimInterval [''chrX'' \<mapsto> 0xFFFFFFFA] (copiedId \<lparr>idBytes = ''chrX_5_6_0:''\<rparr>)
     = Inr (0xFFFFFFFE, 0xFFFFFFFF)
   \<and> (0xFFFFFFFF :: u32) + (1 :: s32) = 0
   \<and> retval (wgsimReadMisaligned \<lparr>idBytes = ''chrX_5_6_0:''\<rparr> 0xFFFFFFFF
         [''chrX'' \<mapsto> 0xFFFFFFFA] 1 None None (\<lambda>a. 0))
   \<and> misaligned 0xFFFFFFFF 0xFFFFFFFE 0xFFFFFFFF 1
   \<and> \<not> (uint (0xFFFFFFFF :: u32) > uint (0xFFFFFFFF :: u32) + sint (1 :: s32)
        \<or> uint (0xFFFFFFFF :: u32) + sint (1 :: s32) < uint (0xFFFFFFFE :: u32))"
  using top_length by (simp add: top_interval wgsimReadMisaligned_def misaligned_def)

text \<open>
  Claim C5, amended. The two sums are taken modulo \<open>2 ^ 32\<close>: the function reports
  misaligned exactly when \<open>genomeLocation > (high + maxK) mod 2 ^ 32\<close> or
  \<open>(genomeLocation + maxK) mod 2 ^ 32 < low\<close>. For a non-negative \<open>maxK\<close>, a candidate
  that is more than \<open>maxK\<close> above \<open>high\<close> or below \<open>low\<close> is reported as misaligned
  whether or not a sum wraps, so an overflow never makes a candidate aligned; and when
  neither sum reaches \<open>2 ^ 32\<close> the report is exact.
\<close>

theorem comparison_wraps_modulo_word_size:
  "(misaligned genomeLocation low high maxK \<longleftrightarrow>
      uint genomeLocation > (uint high + sint maxK) mod 2 ^ 32
      \<or> (uint genomeLocation + sint maxK) mod 2 ^ 32 < uint low)
   \<and> (0 \<le> sint maxK \<and>
       (uint genomeLocation > uint high + sint maxK \<or> uint genomeLocation + sint maxK < uint low)
       \<longrightarrow> misaligned genomeLocation low high maxK)
   \<and> (0 \<le> sint maxK \<and> uint high + sint maxK < 2 ^ 32 \<and> uint genomeLocation + sint maxK < 2 ^ 32
       \<longrightarrow> (misaligned genomeLocation low high maxK \<longleftrightarrow>
             uint genomeLocation > uint high + sint maxK
             \<or> uint genomeLocation + sint maxK < uint low))"
proof (intro conjI impI)
  show "misaligned genomeLocation low high maxK \<longleftrightarrow>
      uint genomeLocation > (uint high + sint maxK) mod 2 ^ 32
      \<or> (uint genomeLocation + sint maxK) mod 2 ^ 32 < uint low"
    by (rule misaligned_wraps)
next
  assume "0 \<le> sint maxK \<and>
       (uint genomeLocation > uint high + sint maxK \<or> uint genomeLocation + sint maxK < uint low)"
  then show "misaligned genomeLocation low high maxK"
    by (intro misaligned_never_missed) simp_all
next
  assume "0 \<le> sint maxK \<and> uint high + sint maxK < 2 ^ 32
      \<and> uint genomeLocation + sint maxK < 2 ^ 32"
  then show "misaligned genomeLocation low high maxK \<longleftrightarrow>
             uint genomeLocation > uint high + sint maxK
             \<or> uint genomeLocation + sint maxK < uint low"
    by (intro misaligned_exact) simp_all
qed

theorem comparison_wraps_modulo_word_size_witness:
  "(misaligned 0xFFFFFFFF 0xFFFFFFFE 0xFFFFFFFF 1 \<longleftrightarrow>
      uint (0xFFFFFFFF :: u32) > (uint (0xFFFFFFFF :: u32) + sint (1 :: s32)) mod 2 ^ 32
      \<or> (uint (0xFFFFFFFF :: u32) + sint (1 :: s32)) mod 2 ^ 32 < uint (0xFFFFFFFE :: u32))
   \<and> misaligned 300 100 200 5
   \<and> (misaligned 205 100 200 5 \<longleftrightarrow>
        uint (205 :: u32) > uint (200 :: u32) + sint (5 :: s32)
        \<or> uint (205 :: u32) + sint (5 :: s32) < uint (100 :: u32))"
proof -
  have far: "0 \<le> sint (5 :: s32) \<and>
      (uint (300 :: u32) > uint (200 :: u32) + sint (5 :: s32)
       \<or> uint (300 :: u32) + sint (5 :: s32) < uint (100 :: u32))"
    by simp
  have fits: "0 \<le> sint (5 :: s32) \<and> uint (200 :: u32) + sint (5 :: s32) < 2 ^ 32
      \<and> uint (205 :: u32) + sint (5 :: s32) < 2 ^ 32"
    by simp
  from comparison_wraps_modulo_word_size [of "0xFFFFFFFF" "0xFFFFFFFE" "0xFFFFFFFF" 1, THEN conjunct1]
    comparison_wraps_modulo_word_size [of 300 100 200 5, THEN conjunct2, THEN conjunct1, rule_format, OF far]
    comparison_wraps_modulo_word_size [of 205 100 200 5, THEN conjunct2, THEN conjunct2, rule_format, OF fits]
  show ?thesis by blast
qed

section \<open>Failures\<close>

lemma no_colon_length: "getIdLength \<lparr>idBytes = ''noColonHere''\<rparr> \<le> 1023"
  by (simp add: getIdLength_def)

lemma no_colon_interval:
  "wgsimInterval genome (copiedId \<lparr>idBytes = ''noColonHere''\<rparr>) = Inl (MissingColon, ''noColonHere'')"
proof -
  have "copiedId \<lparr>idBytes = ''noColonHere''\<rparr> = ''noColonHere''"
    by code_simp
  moreover have "wgsimParseId ''noColonHere'' = Inl (MissingColon, ''noColonHere'')"
    by code_simp
  ultimately show ?thesis
    by (simp add: wgsimInterval_def)
qed

text \<open>
  Claim C4, as the specification has it: a decoding failure reaches the caller as an
  outcome of its own, never as the boolean verdict.

  The function has one return value, a \<^verbatim>\<open>bool\<close>, and every failing path ends in
  \<^verbatim>\<open>return false\<close>, the value that also says "not misaligned". A caller that passes
  no output pointers sees the same from \<^verbatim>\<open>noColonHere\<close>, which does not decode, as
  from a read of [100, 200] mapped to location 150.
\<close>

theorem failure_returned_as_aligned:
  "wgsimInterval [''chr1'' \<mapsto> 0] (copiedId \<lparr>idBytes = ''noColonHere''\<rparr>)
     = Inl (MissingColon, ''noColonHere'')
   \<and> wgsimInterval [''chr1'' \<mapsto> 0] (copiedId \<lparr>idBytes = ''chr1_101_201_0:''\<rparr>) = Inr (100, 200)
   \<and> retval (wgsimReadMisaligned \<lparr>idBytes = ''noColonHere''\<rparr> 150 [''chr1'' \<mapsto> 0] 5 None None
        (\<lambda>a. 0)) = False
   \<and> retval (wgsimReadMisaligned \<lparr>idBytes = ''chr1_101_201_0:''\<rparr> 150 [''chr1'' \<mapsto> 0] 5 None None
        (\<lambda>a. 0)) = False
   \<and> mem (wgsimReadMisaligned \<lparr>idBytes = ''noColonHere''\<rparr> 150 [''chr1'' \<mapsto> 0] 5 None None
        (\<lambda>a. 0))
     = mem (wgsimReadMisaligned \<lparr>idBytes = ''chr1_101_201_0:''\<rparr> 150 [''chr1'' \<mapsto> 0] 5 None None
        (\<lambda>a. 0))"
  using no_colon_length sample_length
  by (simp add: no_colon_interval sample_interval wgsimReadMisaligned_def misaligned_def
      store_through_def)

text \<open>
  Claim C4, amended. When decoding fails for an identifier of at most 1023 bytes, the
  function writes the line that names the failure to \<^verbatim>\<open>stderr\<close>, leaves the caller's
  memory as it was, and returns false, the boolean that also means "aligned"; the
  return value does not tell the failure from that verdict.
\<close>

theorem decode_failure_returns_false:
  assumes "getIdLength rd \<le> 1023"
    and "wgsimInterval genome (copiedId rd) = Inl line"
  shows "wgsimReadMisaligned rd genomeLocation genome maxK lowOut highOut st
           = Return False (Some line) st"
  using assms by (simp add: wgsimReadMisaligned_def)

theorem decode_failure_returns_false_witness:
  "wgsimReadMisaligned \<lparr>idBytes = ''noColonHere''\<rparr> 150 [''chr1'' \<mapsto> 0] 5 (Some 0) (Some 1) (\<lambda>a. 0)
     = Return False (Some (MissingColon, ''noColonHere'')) (\<lambda>a. 0)"
  by (rule decode_failure_returns_false [OF no_colon_length no_colon_interval])

text \<open>
  Claim C9. An identifier of more than 1023 bytes makes the function leave through
  \<^verbatim>\<open>soft_exit(1)\<close>, which ends the process: no parse failure is returned. An
  identifier of 1023 bytes or fewer never does; the function returns.
\<close>

theorem id_too_long_is_fatal:
  "(getIdLength rd > 1023 \<longrightarrow>
      wgsimReadMisaligned rd genomeLocation genome maxK lowOut highOut st = Exited 1)
   \<and> (getIdLength rd \<le> 1023 \<longrightarrow>
      (\<exists>verdict line st'.
          wgsimReadMisaligned rd genomeLocation genome maxK lowOut highOut st
            = Return verdict line st'))"
  by (auto simp: wgsimReadMisaligned_def soft_exit_def split: sum.splits)

theorem id_too_long_is_fatal_witness:
  "wgsimReadMisaligned \<lparr>idBytes = replicate 1024 CHR ''a''\<rparr> 7 Map.empty 3 None None (\<lambda>a. 0)
     = Exited 1
   \<and> (\<exists>verdict line st'.
         wgsimReadMisaligned \<lparr>idBytes = replicate 1023 CHR ''a''\<rparr> 7 Map.empty 3 None None (\<lambda>a. 0)
           = Return verdict line st')"
proof -
  have long: "getIdLength \<lparr>idBytes = replicate 1024 CHR ''a''\<rparr> > 1023"
    by (simp add: getIdLength_def)
  have short: "getIdLength \<lparr>idBytes = replicate 1023 CHR ''a''\<rparr> \<le> 1023"
    by (simp add: getIdLength_def)
  from id_too_long_is_fatal [THEN conjunct1, rule_format, OF long]
    id_too_long_is_fatal [THEN conjunct2, rule_format, OF short]
  show ?thesis by blast
qed

text \<open>
  Claim C10. With both output pointers non-null and an identifier of at most 1023
  bytes: when decoding succeeds, \<open>low\<close> is stored through \<^verbatim>\<open>lowOut\<close> and then \<open>high\<close>
  through \<^verbatim>\<open>highOut\<close>, whatever the verdict, and nothing else in memory changes;
  when decoding fails, memory is left as it was.
\<close>

theorem outputs_written_iff_decoded:
  assumes "getIdLength rd \<le> 1023"
  shows "(wgsimInterval genome (copiedId rd) = Inr (low, high) \<longrightarrow>
            mem (wgsimReadMisaligned rd genomeLocation genome maxK (Some lowOut) (Some highOut) st)
              = (st(lowOut := low))(highOut := high)
          \<and> mem (wgsimReadMisaligned rd genomeLocation genome maxK (Some lowOut) (Some highOut) st)
              highOut = high
          \<and> (lowOut \<noteq> highOut \<longrightarrow>
              mem (wgsimReadMisaligned rd genomeLocation genome maxK (Some lowOut) (Some highOut) st)
                lowOut = low))
       \<and> (wgsimInterval genome (copiedId rd) = Inl line \<longrightarrow>
            mem (wgsimReadMisaligned rd genomeLocation genome maxK (Some lowOut) (Some highOut) st)
              = st)"
  using assms by (simp add: wgsimReadMisaligned_def store_through_def)

theorem outputs_written_iff_decoded_witness:
  "mem (wgsimReadMisaligned \<lparr>idBytes = ''chr1_101_201_0:''\<rparr> 150 [''chr1'' \<mapsto> 0] 5
          (Some 0) (Some 1) (\<lambda>a. 7))
     = ((\<lambda>a. 7)(0 := 100))(1 := 200)
   \<and> mem (wgsimReadMisaligned \<lparr>idBytes = ''noColonHere''\<rparr> 150 [''chr1'' \<mapsto> 0] 5
          (Some 0) (Some 1) (\<lambda>a. 7))
     = (\<lambda>a. 7)"
proof -
  from outputs_written_iff_decoded [OF sample_length, THEN conjunct1, rule_format, OF sample_interval]
  have "mem (wgsimReadMisaligned \<lparr>idBytes = ''chr1_101_201_0:''\<rparr> 150 [''chr1'' \<mapsto> 0] 5
          (Some 0) (Some 1) (\<lambda>a. 7)) = ((\<lambda>a. 7)(0 := 100))(1 := 200)"
    by blast
  moreover
  from outputs_written_iff_decoded [OF no_colon_length, THEN conjunct2, rule_format, OF no_colon_interval]
  have "mem (wgsimReadMisaligned \<lparr>idBytes = ''noColonHere''\<rparr> 150 [''chr1'' \<mapsto> 0] 5
          (Some 0) (Some 1) (\<lambda>a. 7)) = (\<lambda>a. 7)" .
  ultimately show ?thesis by blast
qed

section \<open>The interval\<close>

text \<open>
  Claim C8. Whenever an identifier decodes, the interval has \<open>low \<le> high\<close>; \<open>low\<close> is
  the smaller and \<open>high\<close> the larger of the two absolute offsets, each of which is the
  offset read from the identifier plus the offset of the contig in the genome, minus one,
  in the code's 32-bit unsigned arithmetic.
\<close>

theorem interval_is_ordered_min_max:
  assumes "wgsimInterval genome ident = Inr (low, high)"
  shows "low \<le> high \<and>
     (\<exists>contigName offset1 offset2 offsetOfContig.
        wgsimParseId ident = Inr (contigName, offset1, offset2) \<and>
        getOffsetOfContig genome contigName = Some offsetOfContig \<and>
        low = min (offset1 + offsetOfContig - 1) (offset2 + offsetOfContig - 1) \<and>
        high = max (offset1 + offsetOfContig - 1) (offset2 + offsetOfContig - 1))"
  using assms
  by (auto simp: wgsimInterval_def Let_def min_le_iff_disj le_max_iff_disj
      split: sum.splits option.splits prod.splits)

lemma reversed_interval:
  "wgsimInterval [''chr1'' \<mapsto> 1000] ''chr1_201_101_0:'' = Inr (1100, 1200)"
  by code_simp

theorem interval_is_ordered_min_max_witness:
  "(1100 :: u32) \<le> 1200 \<and>
     (\<exists>contigName offset1 offset2 offsetOfContig.
        wgsimParseId ''chr1_201_101_0:'' = Inr (contigName, offset1, offset2) \<and>
        getOffsetOfContig [''chr1'' \<mapsto> 1000] contigName = Some offsetOfContig \<and>
        (1100 :: u32) = min (offset1 + offsetOfContig - 1) (offset2 + offsetOfContig - 1) \<and>
        (1200 :: u32) = max (offset1 + offsetOfContig - 1) (offset2 + offsetOfContig - 1))"
  by (rule interval_is_ordered_min_max [OF reversed_interval])

text \<open>
  Unknown contig (lines 139 to 143). An identifier that parses, with a contig name the
  genome does not hold, gives the failure \<open>UnknownContig\<close>, whose line carries the
  contig name; the function returns false and stores nothing.
\<close>

theorem unknown_contig_is_reported:
  assumes "getIdLength rd \<le> 1023"
    and "wgsimParseId (copiedId rd) = Inr (contigName, offset1, offset2)"
    and "getOffsetOfContig genome contigName = None"
  shows "wgsimInterval genome (copiedId rd) = Inl (UnknownContig, contigName)
       \<and> wgsimReadMisaligned rd genomeLocation genome maxK lowOut highOut st
           = Return False (Some (UnknownContig, contigName)) st"
  using assms by (simp add: wgsimReadMisaligned_def wgsimInterval_def)

theorem unknown_contig_is_reported_witness:
  "wgsimInterval [''chr1'' \<mapsto> 0] (copiedId \<lparr>idBytes = ''chr2_101_201_0:''\<rparr>)
     = Inl (UnknownContig, ''chr2'')
   \<and> wgsimReadMisaligned \<lparr>idBytes = ''chr2_101_201_0:''\<rparr> 150 [''chr1'' \<mapsto> 0] 5
        (Some 0) (Some 1) (\<lambda>a. 7)
      = Return False (Some (UnknownContig, ''chr2'')) (\<lambda>a. 7)"
proof -
  have len: "getIdLength \<lparr>idBytes = ''chr2_101_201_0:''\<rparr> \<le> 1023"
    by (simp add: getIdLength_def)
  have parsed: "wgsimParseId (copiedId \<lparr>idBytes = ''chr2_101_201_0:''\<rparr>) = Inr (''chr2'', 101, 201)"
    by code_simp
  have absent: "getOffsetOfContig [''chr1'' \<mapsto> 0] ''chr2'' = None"
    by (simp add: getOffsetOfContig_def)
  show ?thesis
    by (rule unknown_contig_is_reported [OF len parsed absent])
qed

section \<open>Printing an identifier and reading it back\<close>

text \<open>
  Claim C2, as the specification has it: for every contig name without a colon, every
  offset, every read length of at least one and both values of \<^verbatim>\<open>firstHalf\<close>, the
  printed identifier decodes, to the interval of the two absolute coordinates.

  The decoder rejects a contig name of 200 bytes or more (line 131). For the contig
  whose name is 200 letters \<^verbatim>\<open>a\<close>, known to the genome at offset 0, the printed
  identifier does not decode.
\<close>

theorem long_contig_name_not_decoded:
  "wgsimInterval [replicate 200 CHR ''a'' \<mapsto> 0]
     (copiedId \<lparr>idBytes = wgsimGenerateIDString
        \<lparr>name = replicate 200 CHR ''a'', beginningOffset = 0\<rparr> 0 10 True\<rparr>)
   = Inl (ContigNameTooLong,
       wgsimGenerateIDString \<lparr>name = replicate 200 CHR ''a'', beginningOffset = 0\<rparr> 0 10 True)"
  by code_simp

text \<open>
  Claim C2, amended. For every contig of the genome whose name holds no colon and is
  shorter than 200 bytes, every offset in the contig, every read length and both values
  of \<^verbatim>\<open>firstHalf\<close>, the printed identifier is at most 1023 bytes long and decodes to
  \<open>low = min abs1 abs2\<close> and \<open>high = max abs1 abs2\<close>, where \<open>abs1\<close> and \<open>abs2\<close> are
  \<open>offsetInContig + 1\<close> and \<open>offsetInContig + readLength\<close>, each plus the contig's
  offset minus one; the function stores them and returns the verdict for that interval.
  (A contig name is a C string: it holds no NUL.)
\<close>

theorem generated_id_decodes:
  assumes "CHR '':'' \<notin> set (name contig)"
    and "CHR 0x00 \<notin> set (name contig)"
    and "length (name contig) < contigNameMaxSize"
    and "getOffsetOfContig genome (name contig) = Some (beginningOffset contig)"
  shows "let rd = \<lparr>idBytes = wgsimGenerateIDString contig offsetInContig readLength firstHalf\<rparr>;
             abs1 = (offsetInContig + 1) + beginningOffset contig - 1;
             abs2 = (offsetInContig + readLength) + beginningOffset contig - 1
         in getIdLength rd \<le> 1023
          \<and> wgsimInterval genome (copiedId rd) = Inr (min abs1 abs2, max abs1 abs2)
          \<and> wgsimReadMisaligned rd genomeLocation genome maxK lowOut highOut st
              = Return (misaligned genomeLocation (min abs1 abs2) (max abs1 abs2) maxK) None
                  (store_through highOut (max abs1 abs2)
                    (store_through lowOut (min abs1 abs2) st))"
proof -
  let ?g = "wgsimGenerateIDString contig offsetInContig readLength firstHalf"
  note c = copiedId_generated [OF assms(3), of offsetInContig readLength firstHalf]
  have p: "wgsimParseId ?g = Inr (name contig, offsetInContig + 1, offsetInContig + readLength)"
    using assms(1-3) by (rule wgsimParseId_generated)
  have i: "wgsimInterval genome ?g
      = Inr (min ((offsetInContig + 1) + beginningOffset contig - 1)
                 ((offsetInContig + readLength) + beginningOffset contig - 1),
             max ((offsetInContig + 1) + beginningOffset contig - 1)
                 ((offsetInContig + readLength) + beginningOffset contig - 1))"
    by (simp add: wgsimInterval_def p assms(4) Let_def)
  show ?thesis
    using c(1) by (simp add: Let_def c(2) i wgsimReadMisaligned_def)
qed

theorem generated_id_decodes_witness:
  "wgsimGenerateIDString \<lparr>name = ''chr_1'', beginningOffset = 1000\<rparr> 99 101 True
     = ''chr_1_100_200_0::0:0_2:0:a0_0/1''
   \<and> wgsimInterval [''chr_1'' \<mapsto> 1000]
        (copiedId \<lparr>idBytes = wgsimGenerateIDString
           \<lparr>name = ''chr_1'', beginningOffset = 1000\<rparr> 99 101 True\<rparr>)
     = Inr (1099, 1199)"
proof -
  have h1: "CHR '':'' \<notin> set (name \<lparr>name = ''chr_1'', beginningOffset = 1000 :: u32\<rparr>)"
    by simp
  have h2: "CHR 0x00 \<notin> set (name \<lparr>name = ''chr_1'', beginningOffset = 1000 :: u32\<rparr>)"
    by simp
  have h3: "length (name \<lparr>name = ''chr_1'', beginningOffset = 1000 :: u32\<rparr>) < contigNameMaxSize"
    by (simp add: contigNameMaxSize_def)
  have h4: "getOffsetOfContig [''chr_1'' \<mapsto> 1000]
        (name \<lparr>name = ''chr_1'', beginningOffset = 1000 :: u32\<rparr>)
      = Some (beginningOffset \<lparr>name = ''chr_1'', beginningOffset = 1000 :: u32\<rparr>)"
    by (simp add: getOffsetOfContig_def)
  have printed: "wgsimGenerateIDString \<lparr>name = ''chr_1'', beginningOffset = 1000\<rparr> 99 101 True
     = ''chr_1_100_200_0::0:0_2:0:a0_0/1''"
    by code_simp
  from generated_id_decodes [OF h1 h2 h3 h4, of 99 101 True 0 0 None None "\<lambda>a. 0"]
  have "wgsimInterval [''chr_1'' \<mapsto> 1000]
        (copiedId \<lparr>idBytes = wgsimGenerateIDString
           \<lparr>name = ''chr_1'', beginningOffset = 1000\<rparr> 99 101 True\<rparr>)
     = Inr (1099, 1199)"
    by (simp add: Let_def)
  with printed show ?thesis by simp
qed

section \<open>The parser\<close>

text \<open>
  Claim C3, as the specification has it: for every identifier the parser anchors at the
  first colon, finds three underscores scanning backwards, takes what stands before
  the third one as the contig name, reads \<^verbatim>\<open>offset1\<close> after the third underscore and
  \<^verbatim>\<open>offset2\<close> after the second.

  Where the first underscore follows the second at once, the code reads nothing after
  the second underscore: it copies \<^verbatim>\<open>offset1\<close> (line 112). In \<^verbatim>\<open>chr1_100__0:\<close> the
  three underscores stand at 9, 8 and 4; what follows the second is \<^verbatim>\<open>_0:\<close>, which is
  no number, and \<^verbatim>\<open>offset2\<close> is 100.
\<close>

theorem single_end_offset2_not_read:
  "strchr ''chr1_100__0:'' CHR '':'' = Some 11
   \<and> underscore_before ''chr1_100__0:'' 11 = Some 9
   \<and> underscore_before ''chr1_100__0:'' 9 = Some 8
   \<and> underscore_before ''chr1_100__0:'' 8 = Some 4
   \<and> sscanf_d (drop (8 + 1) ''chr1_100__0:'') = None
   \<and> wgsimParseId ''chr1_100__0:'' = Inr (''chr1'', 100, 100)"
  by code_simp

text \<open>
  Claim C3, amended. For every identifier that parses: the anchor \<open>c\<close> is the first
  colon; between the start of the contig's underscore \<open>u3\<close> and \<open>c\<close> there are exactly
  three underscores, \<open>u3 < u2 < u1\<close>; the contig name is everything strictly before
  \<open>u3\<close>; \<^verbatim>\<open>offset1\<close> is read after \<open>u3\<close>; and \<^verbatim>\<open>offset2\<close> is read after \<open>u2\<close>, unless
  \<open>u1\<close> follows \<open>u2\<close> at once, in which case \<^verbatim>\<open>offset2\<close> is \<^verbatim>\<open>offset1\<close>. In particular
  \<^verbatim>\<open>chr_1_100_200_0::0:0_2:0:a0_0/1\<close> parses to the contig name \<^verbatim>\<open>chr_1\<close> and the
  offsets 100 and 200.
\<close>

theorem contig_name_before_third_underscore:
  "(\<forall>ident contigName offset1 offset2.
      wgsimParseId ident = Inr (contigName, offset1, offset2) \<longrightarrow>
      (\<exists>c u1 u2 u3 v1.
         c < length ident \<and> ident ! c = CHR '':'' \<and> (\<forall>j<c. ident ! j \<noteq> CHR '':'') \<and>
         u3 < u2 \<and> u2 < u1 \<and> u1 < c \<and>
         (\<forall>j. u3 \<le> j \<and> j < c \<longrightarrow> (ident ! j = CHR ''_'' \<longleftrightarrow> j = u3 \<or> j = u2 \<or> j = u1)) \<and>
         contigName = take u3 ident \<and>
         sscanf_d (drop (u3 + 1) ident) = Some v1 \<and> offset1 = stored_as_unsigned v1 \<and>
         (if u1 = u2 + 1 then offset2 = offset1
          else \<exists>v2. sscanf_d (drop (u2 + 1) ident) = Some v2 \<and> offset2 = stored_as_unsigned v2)))
   \<and> wgsimParseId ''chr_1_100_200_0::0:0_2:0:a0_0/1'' = Inr (''chr_1'', 100, 200)"
proof (intro conjI allI impI)
  fix ident contigName offset1 offset2
  assume "wgsimParseId ident = Inr (contigName, offset1, offset2)"
  from wgsimParseId_Inr [OF this] obtain c u1 u2 u3 v1 where
    scans: "strchr ident CHR '':'' = Some c" "underscore_before ident c = Some u1"
      "underscore_before ident u1 = Some u2" "underscore_before ident u2 = Some u3"
    and rest: "sscanf_d (drop (u3 + 1) ident) = Some v1" "offset1 = stored_as_unsigned v1"
      "if u1 = u2 + 1 then offset2 = offset1
       else \<exists>v2. sscanf_d (drop (u2 + 1) ident) = Some v2 \<and> offset2 = stored_as_unsigned v2"
      "contigName = take u3 ident"
    by blast
  from parse_positions [OF scans] rest
  show "\<exists>c u1 u2 u3 v1.
         c < length ident \<and> ident ! c = CHR '':'' \<and> (\<forall>j<c. ident ! j \<noteq> CHR '':'') \<and>
         u3 < u2 \<and> u2 < u1 \<and> u1 < c \<and>
         (\<forall>j. u3 \<le> j \<and> j < c \<longrightarrow> (ident ! j = CHR ''_'' \<longleftrightarrow> j = u3 \<or> j = u2 \<or> j = u1)) \<and>
         contigName = take u3 ident \<and>
         sscanf_d (drop (u3 + 1) ident) = Some v1 \<and> offset1 = stored_as_unsigned v1 \<and>
         (if u1 = u2 + 1 then offset2 = offset1
          else \<exists>v2. sscanf_d (drop (u2 + 1) ident) = Some v2 \<and> offset2 = stored_as_unsigned v2)"
    by blast
next
  show "wgsimParseId ''chr_1_100_200_0::0:0_2:0:a0_0/1'' = Inr (''chr_1'', 100, 200)"
    by code_simp
qed

lemma paired_parse: "wgsimParseId ''chr_1_100_200_0:x'' = Inr (''chr_1'', 100, 200)"
  by code_simp

theorem contig_name_before_third_underscore_witness:
  "\<exists>c u1 u2 u3 v1.
     c < length ''chr_1_100_200_0:x'' \<and> ''chr_1_100_200_0:x'' ! c = CHR '':'' \<and>
     (\<forall>j<c. ''chr_1_100_200_0:x'' ! j \<noteq> CHR '':'') \<and>
     u3 < u2 \<and> u2 < u1 \<and> u1 < c \<and>
     (\<forall>j. u3 \<le> j \<and> j < c \<longrightarrow>
        (''chr_1_100_200_0:x'' ! j = CHR ''_'' \<longleftrightarrow> j = u3 \<or> j = u2 \<or> j = u1)) \<and>
     ''chr_1'' = take u3 ''chr_1_100_200_0:x'' \<and>
     sscanf_d (drop (u3 + 1) ''chr_1_100_200_0:x'') = Some v1 \<and>
     (100 :: u32) = stored_as_unsigned v1 \<and>
     (if u1 = u2 + 1 then (200 :: u32) = 100
      else \<exists>v2. sscanf_d (drop (u2 + 1) ''chr_1_100_200_0:x'') = Some v2 \<and>
             (200 :: u32) = stored_as_unsigned v2)"
  by (rule contig_name_before_third_underscore [THEN conjunct1, rule_format, OF paired_parse])

text \<open>
  Claim C6, as the specification has it: every identifier whose first and second
  underscores before the colon are adjacent decodes, with \<^verbatim>\<open>offset2\<close> equal to
  \<^verbatim>\<open>offset1\<close>.

  Adjacent underscores do not make the rest of the identifier well formed. In
  \<^verbatim>\<open>x__0:\<close> the first underscore before the colon stands at 2 and the second at 1;
  there is no third one, and the function gives up.
\<close>

theorem adjacent_underscores_not_decoded:
  "strchr ''x__0:'' CHR '':'' = Some 4
   \<and> underscore_before ''x__0:'' 4 = Some 2
   \<and> underscore_before ''x__0:'' 2 = Some 1
   \<and> wgsimParseId ''x__0:'' = Inl (MissingUnderscore3, ''x__0:'')
   \<and> wgsimReadMisaligned \<lparr>idBytes = ''x__0:''\<rparr> 0 [''x'' \<mapsto> 0] 0 None None (\<lambda>a. 0)
      = Return False (Some (MissingUnderscore3, ''x__0:'')) (\<lambda>a. 0)"
proof -
  have scans: "strchr ''x__0:'' CHR '':'' = Some 4 \<and> underscore_before ''x__0:'' 4 = Some 2
      \<and> underscore_before ''x__0:'' 2 = Some 1
      \<and> wgsimParseId ''x__0:'' = Inl (MissingUnderscore3, ''x__0:'')"
    by code_simp
  have "copiedId \<lparr>idBytes = ''x__0:''\<rparr> = ''x__0:''"
    by code_simp
  then have "wgsimReadMisaligned \<lparr>idBytes = ''x__0:''\<rparr> 0 [''x'' \<mapsto> 0] 0 None None (\<lambda>a. 0)
      = Return False (Some (MissingUnderscore3, ''x__0:'')) (\<lambda>a. 0)"
    using scans by (simp add: wgsimReadMisaligned_def wgsimInterval_def getIdLength_def)
  with scans show ?thesis by blast
qed

text \<open>
  Claim C6, amended. Take an identifier with a colon, three underscores before it (at
  \<open>u3 < u2 < u1\<close>, found by the backward scans), a readable \<^verbatim>\<open>offset1\<close> and a contig
  name shorter than 200 bytes. If the first and second underscores are adjacent
  (\<open>u1 = u2 + 1\<close>), parsing succeeds with \<^verbatim>\<open>offset2\<close> equal to \<^verbatim>\<open>offset1\<close>. Otherwise
  \<^verbatim>\<open>offset2\<close> is read from the characters strictly between the second and the first
  underscore: parsing succeeds with that number, or fails with \<open>BadOffset2\<close> when they
  are not a number.
\<close>

theorem second_offset_rule:
  assumes "strchr ident CHR '':'' = Some c"
    and "underscore_before ident c = Some u1"
    and "underscore_before ident u1 = Some u2"
    and "underscore_before ident u2 = Some u3"
    and "sscanf_d (drop (u3 + 1) ident) = Some v1"
    and "u3 < contigNameMaxSize"
  shows "(u1 = u2 + 1 \<longrightarrow>
            wgsimParseId ident = Inr (take u3 ident, stored_as_unsigned v1, stored_as_unsigned v1))
       \<and> (u1 \<noteq> u2 + 1 \<longrightarrow>
            (case sscanf_d (take (u1 - (u2 + 1)) (drop (u2 + 1) ident)) of
               None \<Rightarrow> wgsimParseId ident = Inl (BadOffset2, ident)
             | Some v2 \<Rightarrow>
                 wgsimParseId ident
                   = Inr (take u3 ident, stored_as_unsigned v1, stored_as_unsigned v2)))"
  using assms by (rule wgsimParseId_offset2)

theorem second_offset_rule_witness:
  "wgsimParseId ''chr1_100__0:'' = Inr (''chr1'', 100, 100)
   \<and> wgsimParseId ''chr1_100_200_0:'' = Inr (''chr1'', 100, 200)
   \<and> wgsimParseId ''chr1_100_x_0:'' = Inl (BadOffset2, ''chr1_100_x_0:'')"
proof -
  have s: "strchr ''chr1_100__0:'' CHR '':'' = Some 11" "underscore_before ''chr1_100__0:'' 11 = Some 9"
    "underscore_before ''chr1_100__0:'' 9 = Some 8" "underscore_before ''chr1_100__0:'' 8 = Some 4"
    "sscanf_d (drop (4 + 1) ''chr1_100__0:'') = Some 100" "4 < contigNameMaxSize"
    by code_simp+
  have p: "strchr ''chr1_100_200_0:'' CHR '':'' = Some 14"
    "underscore_before ''chr1_100_200_0:'' 14 = Some 12"
    "underscore_before ''chr1_100_200_0:'' 12 = Some 8"
    "underscore_before ''chr1_100_200_0:'' 8 = Some 4"
    "sscanf_d (drop (4 + 1) ''chr1_100_200_0:'') = Some 100" "4 < contigNameMaxSize"
    by code_simp+
  have b: "strchr ''chr1_100_x_0:'' CHR '':'' = Some 12"
    "underscore_before ''chr1_100_x_0:'' 12 = Some 10"
    "underscore_before ''chr1_100_x_0:'' 10 = Some 8"
    "underscore_before ''chr1_100_x_0:'' 8 = Some 4"
    "sscanf_d (drop (4 + 1) ''chr1_100_x_0:'') = Some 100" "4 < contigNameMaxSize"
    by code_simp+
  have seg_p: "sscanf_d (take (12 - (8 + 1)) (drop (8 + 1) ''chr1_100_200_0:'')) = Some 200"
    by code_simp
  have seg_b: "sscanf_d (take (10 - (8 + 1)) (drop (8 + 1) ''chr1_100_x_0:'')) = None"
    by code_simp
  have w: "stored_as_unsigned 100 = (100 :: u32)" "stored_as_unsigned 200 = (200 :: u32)"
    by (simp_all add: stored_as_unsigned_def)
  from second_offset_rule [OF s, THEN conjunct1]
  have "wgsimParseId ''chr1_100__0:'' = Inr (''chr1'', 100, 100)"
    by (simp add: w)
  moreover from second_offset_rule [OF p, THEN conjunct2] seg_p
  have "wgsimParseId ''chr1_100_200_0:'' = Inr (''chr1'', 100, 200)"
    by (simp add: w)
  moreover from second_offset_rule [OF b, THEN conjunct2] seg_b
  have "wgsimParseId ''chr1_100_x_0:'' = Inl (BadOffset2, ''chr1_100_x_0:'')"
    by simp
  ultimately show ?thesis by blast
qed

lemma returns_parse_failure:
  assumes "length ident \<le> 1023" "CHR 0x00 \<notin> set ident" "wgsimParseId ident = Inl line"
  shows "wgsimReadMisaligned \<lparr>idBytes = ident\<rparr> genomeLocation genome maxK lowOut highOut st
           = Return False (Some line) st"
proof -
  have "copiedId \<lparr>idBytes = ident\<rparr> = ident"
    using assms(1,2)
    by (simp add: copiedId_def getId_def getIdLength_def strncpy_terminated_def c_string_id)
  with assms(1,3) show ?thesis
    by (simp add: wgsimReadMisaligned_def wgsimInterval_def getIdLength_def)
qed

text \<open>
  Claim C7, as the specification has it: \<^verbatim>\<open>noColonHere\<close> and the empty string fail
  with the missing-colon kind, and \<^verbatim>\<open>a_b_c_noUnderscorePattern:\<close> fails with the kind
  for too few underscores.

  The third string has three underscores before its colon (after \<^verbatim>\<open>a\<close>, \<^verbatim>\<open>b\<close> and
  \<^verbatim>\<open>c\<close>), so all three backward scans succeed. The function then reads
  \<^verbatim>\<open>offset1\<close> after the third underscore from the end, where \<^verbatim>\<open>b\<close> stands, and the
  line it writes is the one for \<^verbatim>\<open>offset1\<close>.
\<close>

theorem three_underscores_fail_at_offset1:
  "strchr ''a_b_c_noUnderscorePattern:'' CHR '':'' = Some 25
   \<and> count_list (take 25 ''a_b_c_noUnderscorePattern:'') CHR ''_'' = 3
   \<and> wgsimParseId ''a_b_c_noUnderscorePattern:'' = Inl (BadOffset1, ''a_b_c_noUnderscorePattern:'')
   \<and> wgsimReadMisaligned \<lparr>idBytes = ''a_b_c_noUnderscorePattern:''\<rparr> 0 Map.empty 0 None None
        (\<lambda>a. 0)
      = Return False (Some (BadOffset1, ''a_b_c_noUnderscorePattern:'')) (\<lambda>a. 0)"
proof -
  have parse: "strchr ''a_b_c_noUnderscorePattern:'' CHR '':'' = Some 25
      \<and> count_list (take 25 ''a_b_c_noUnderscorePattern:'') CHR ''_'' = 3
      \<and> wgsimParseId ''a_b_c_noUnderscorePattern:''
          = Inl (BadOffset1, ''a_b_c_noUnderscorePattern:'')"
    by code_simp
  then have "wgsimReadMisaligned \<lparr>idBytes = ''a_b_c_noUnderscorePattern:''\<rparr> 0 Map.empty 0 None None
        (\<lambda>a. 0)
      = Return False (Some (BadOffset1, ''a_b_c_noUnderscorePattern:'')) (\<lambda>a. 0)"
    by (intro returns_parse_failure) simp_all
  with parse show ?thesis by blast
qed

text \<open>
  Claim C7, amended. The kind of a parse failure is that of the first check that fails,
  in the order in which the code makes its checks, and the line carries the identifier.
  No colon gives \<open>MissingColon\<close>. With a colon, no, one or two underscores before the
  first colon give \<open>MissingUnderscore1\<close>, \<open>MissingUnderscore2\<close> or
  \<open>MissingUnderscore3\<close>. With three or more: an unreadable \<^verbatim>\<open>offset1\<close> gives
  \<open>BadOffset1\<close>; else, when the first two underscores are not adjacent, an unreadable
  \<^verbatim>\<open>offset2\<close> gives \<open>BadOffset2\<close>; else a contig name of 200 bytes or more gives
  \<open>ContigNameTooLong\<close>; else the identifier parses. The length of the contig name is
  checked after both offsets, so an over-long name with an unreadable offset gives
  \<open>BadOffset1\<close> or \<open>BadOffset2\<close>. A parse failure is the failure of the whole
  decoding. So \<^verbatim>\<open>noColonHere\<close> and the empty string fail with \<open>MissingColon\<close>, and
  \<^verbatim>\<open>a_b_c_noUnderscorePattern:\<close>, which has three underscores, fails with
  \<open>BadOffset1\<close>.
\<close>

theorem failure_kind_is_first_failing_step:
  "(\<forall>ident. CHR '':'' \<notin> set ident \<longrightarrow> wgsimParseId ident = Inl (MissingColon, ident))
   \<and> (\<forall>ident c. strchr ident CHR '':'' = Some c \<longrightarrow>
        (count_list (take c ident) CHR ''_'' = 0 \<longrightarrow>
           wgsimParseId ident = Inl (MissingUnderscore1, ident))
      \<and> (count_list (take c ident) CHR ''_'' = 1 \<longrightarrow>
           wgsimParseId ident = Inl (MissingUnderscore2, ident))
      \<and> (count_list (take c ident) CHR ''_'' = 2 \<longrightarrow>
           wgsimParseId ident = Inl (MissingUnderscore3, ident))
      \<and> (3 \<le> count_list (take c ident) CHR ''_'' \<longrightarrow>
           (\<exists>u1 u2 u3.
              underscore_before ident c = Some u1 \<and> underscore_before ident u1 = Some u2 \<and>
              underscore_before ident u2 = Some u3)))
   \<and> (\<forall>ident c u1 u2 u3.
        strchr ident CHR '':'' = Some c \<and> underscore_before ident c = Some u1 \<and>
        underscore_before ident u1 = Some u2 \<and> underscore_before ident u2 = Some u3 \<longrightarrow>
        (sscanf_d (drop (u3 + 1) ident) = None \<longrightarrow>
           wgsimParseId ident = Inl (BadOffset1, ident))
      \<and> (\<forall>v1. sscanf_d (drop (u3 + 1) ident) = Some v1 \<longrightarrow>
           (u1 \<noteq> u2 + 1 \<and> sscanf_d (drop (u2 + 1) ident) = None \<longrightarrow>
              wgsimParseId ident = Inl (BadOffset2, ident))
         \<and> (\<forall>v2. (if u1 = u2 + 1 then v2 = v1
                    else sscanf_d (drop (u2 + 1) ident) = Some v2) \<longrightarrow>
               (contigNameMaxSize \<le> u3 \<longrightarrow>
                  wgsimParseId ident = Inl (ContigNameTooLong, ident))
             \<and> (u3 < contigNameMaxSize \<longrightarrow>
                  wgsimParseId ident
                    = Inr (take u3 ident, stored_as_unsigned v1, stored_as_unsigned v2)))))
   \<and> (\<forall>genome ident line.
        wgsimParseId ident = Inl line \<longrightarrow> wgsimInterval genome ident = Inl line)
   \<and> wgsimReadMisaligned \<lparr>idBytes = ''noColonHere''\<rparr> genomeLocation genome maxK lowOut highOut st
        = Return False (Some (MissingColon, ''noColonHere'')) st
   \<and> wgsimReadMisaligned \<lparr>idBytes = ''''\<rparr> genomeLocation genome maxK lowOut highOut st
        = Return False (Some (MissingColon, '''')) st
   \<and> wgsimReadMisaligned \<lparr>idBytes = ''a_b_c_noUnderscorePattern:''\<rparr> genomeLocation genome maxK
          lowOut highOut st
        = Return False (Some (BadOffset1, ''a_b_c_noUnderscorePattern:'')) st"
proof (intro conjI allI impI)
  fix ident
  assume "CHR '':'' \<notin> set ident"
  then have "strchr ident CHR '':'' = None"
    by (simp add: strchr_None_iff)
  then show "wgsimParseId ident = Inl (MissingColon, ident)"
    by (simp add: wgsimParseId_def)
next
  fix ident c
  assume c: "strchr ident CHR '':'' = Some c"
  {
    assume "count_list (take c ident) CHR ''_'' = 0"
    with parse_by_count [OF c] show "wgsimParseId ident = Inl (MissingUnderscore1, ident)"
      by blast
  next
    assume "count_list (take c ident) CHR ''_'' = 1"
    with parse_by_count [OF c] show "wgsimParseId ident = Inl (MissingUnderscore2, ident)"
      by blast
  next
    assume "count_list (take c ident) CHR ''_'' = 2"
    with parse_by_count [OF c] show "wgsimParseId ident = Inl (MissingUnderscore3, ident)"
      by blast
  next
    assume "3 \<le> count_list (take c ident) CHR ''_''"
    with parse_by_count [OF c]
    show "\<exists>u1 u2 u3.
              underscore_before ident c = Some u1 \<and> underscore_before ident u1 = Some u2 \<and>
              underscore_before ident u2 = Some u3"
      by blast
  }
next
  fix ident c u1 u2 u3
  assume scans: "strchr ident CHR '':'' = Some c \<and> underscore_before ident c = Some u1 \<and>
        underscore_before ident u1 = Some u2 \<and> underscore_before ident u2 = Some u3"
  then have s: "strchr ident CHR '':'' = Some c" "underscore_before ident c = Some u1"
    "underscore_before ident u1 = Some u2" "underscore_before ident u2 = Some u3"
    by simp_all
  have table: "(sscanf_d (drop (u3 + 1) ident) = None \<longrightarrow>
           wgsimParseId ident = Inl (BadOffset1, ident))
      \<and> (\<forall>v1. sscanf_d (drop (u3 + 1) ident) = Some v1 \<longrightarrow>
           (u1 \<noteq> u2 + 1 \<and> sscanf_d (drop (u2 + 1) ident) = None \<longrightarrow>
              wgsimParseId ident = Inl (BadOffset2, ident))
         \<and> (\<forall>v2. (if u1 = u2 + 1 then v2 = v1
                    else sscanf_d (drop (u2 + 1) ident) = Some v2) \<longrightarrow>
               (contigNameMaxSize \<le> u3 \<longrightarrow>
                  wgsimParseId ident = Inl (ContigNameTooLong, ident))
             \<and> (u3 < contigNameMaxSize \<longrightarrow>
                  wgsimParseId ident
                    = Inr (take u3 ident, stored_as_unsigned v1, stored_as_unsigned v2))))"
    by (rule wgsimParseId_after_underscores [OF s])
  {
    assume "sscanf_d (drop (u3 + 1) ident) = None"
    with table show "wgsimParseId ident = Inl (BadOffset1, ident)"
      by blast
  next
    fix v1
    assume v1: "sscanf_d (drop (u3 + 1) ident) = Some v1"
    {
      assume "u1 \<noteq> u2 + 1 \<and> sscanf_d (drop (u2 + 1) ident) = None"
      with table v1 show "wgsimParseId ident = Inl (BadOffset2, ident)"
        by blast
    next
      fix v2
      assume v2: "if u1 = u2 + 1 then v2 = v1 else sscanf_d (drop (u2 + 1) ident) = Some v2"
      {
        assume "contigNameMaxSize \<le> u3"
        with table v1 v2 show "wgsimParseId ident = Inl (ContigNameTooLong, ident)"
          by blast
      next
        assume "u3 < contigNameMaxSize"
        with table v1 v2
        show "wgsimParseId ident
            = Inr (take u3 ident, stored_as_unsigned v1, stored_as_unsigned v2)"
          by blast
      }
    }
  }
next
  fix genome :: Genome and ident line
  assume "wgsimParseId ident = Inl line"
  then show "wgsimInterval genome ident = Inl line"
    by (simp add: wgsimInterval_def)
next
  have "wgsimParseId ''noColonHere'' = Inl (MissingColon, ''noColonHere'')"
    by code_simp
  then show "wgsimReadMisaligned \<lparr>idBytes = ''noColonHere''\<rparr> genomeLocation genome maxK lowOut
        highOut st = Return False (Some (MissingColon, ''noColonHere'')) st"
    by (intro returns_parse_failure) simp_all
next
  have "wgsimParseId '''' = Inl (MissingColon, '''')"
    by code_simp
  then show "wgsimReadMisaligned \<lparr>idBytes = ''''\<rparr> genomeLocation genome maxK lowOut highOut st
        = Return False (Some (MissingColon, '''')) st"
    by (intro returns_parse_failure) simp_all
next
  have "wgsimParseId ''a_b_c_noUnderscorePattern:''
      = Inl (BadOffset1, ''a_b_c_noUnderscorePattern:'')"
    by code_simp
  then show "wgsimReadMisaligned \<lparr>idBytes = ''a_b_c_noUnderscorePattern:''\<rparr> genomeLocation genome
        maxK lowOut highOut st
        = Return False (Some (BadOffset1, ''a_b_c_noUnderscorePattern:'')) st"
    by (intro returns_parse_failure) simp_all
qed

theorem failure_kind_is_first_failing_step_witness:
  "wgsimParseId ''seq 17 of run'' = Inl (MissingColon, ''seq 17 of run'')
   \<and> wgsimParseId ''chr1:100'' = Inl (MissingUnderscore1, ''chr1:100'')
   \<and> wgsimParseId ''chr1_100:'' = Inl (MissingUnderscore2, ''chr1_100:'')
   \<and> wgsimParseId ''a_b_noUnderscorePattern:'' = Inl (MissingUnderscore3, ''a_b_noUnderscorePattern:'')
   \<and> wgsimParseId ''chr1_100_x_0:'' = Inl (BadOffset2, ''chr1_100_x_0:'')
   \<and> wgsimParseId (replicate 200 CHR ''a'' @ ''_x_5_0:'')
        = Inl (BadOffset1, replicate 200 CHR ''a'' @ ''_x_5_0:'')
   \<and> wgsimParseId (replicate 200 CHR ''a'' @ ''_1_x_0:'')
        = Inl (BadOffset2, replicate 200 CHR ''a'' @ ''_1_x_0:'')
   \<and> wgsimParseId (replicate 200 CHR ''a'' @ ''_1_5_0:'')
        = Inl (ContigNameTooLong, replicate 200 CHR ''a'' @ ''_1_5_0:'')
   \<and> wgsimParseId ''chr1_1_5_0:'' = Inr (''chr1'', 1, 5)"
proof -
  note general = failure_kind_is_first_failing_step [of 0 Map.empty 0 None None "\<lambda>a. 0"]
  note counted = general [THEN conjunct2, THEN conjunct1, rule_format]
  note table = general [THEN conjunct2, THEN conjunct2, THEN conjunct1, rule_format]
  have h0: "CHR '':'' \<notin> set ''seq 17 of run''"
    by simp
  have h1: "strchr ''chr1:100'' CHR '':'' = Some 4" "count_list (take 4 ''chr1:100'') CHR ''_'' = 0"
    by code_simp+
  have h2: "strchr ''chr1_100:'' CHR '':'' = Some 8" "count_list (take 8 ''chr1_100:'') CHR ''_'' = 1"
    by code_simp+
  have h3: "strchr ''a_b_noUnderscorePattern:'' CHR '':'' = Some 23"
    "count_list (take 23 ''a_b_noUnderscorePattern:'') CHR ''_'' = 2"
    by code_simp+
  have b: "strchr ''chr1_100_x_0:'' CHR '':'' = Some 12 \<and>
      underscore_before ''chr1_100_x_0:'' 12 = Some 10 \<and>
      underscore_before ''chr1_100_x_0:'' 10 = Some 8 \<and>
      underscore_before ''chr1_100_x_0:'' 8 = Some 4"
    by code_simp
  have b1: "sscanf_d (drop (4 + 1) ''chr1_100_x_0:'') = Some 100"
    by code_simp
  have b2: "(10 :: nat) \<noteq> 8 + 1 \<and> sscanf_d (drop (8 + 1) ''chr1_100_x_0:'') = None"
    by code_simp
  have l1: "strchr (replicate 200 CHR ''a'' @ ''_x_5_0:'') CHR '':'' = Some 206 \<and>
      underscore_before (replicate 200 CHR ''a'' @ ''_x_5_0:'') 206 = Some 204 \<and>
      underscore_before (replicate 200 CHR ''a'' @ ''_x_5_0:'') 204 = Some 202 \<and>
      underscore_before (replicate 200 CHR ''a'' @ ''_x_5_0:'') 202 = Some 200"
    by code_simp
  have l1a: "sscanf_d (drop (200 + 1) (replicate 200 CHR ''a'' @ ''_x_5_0:'')) = None"
    by code_simp
  have l2: "strchr (replicate 200 CHR ''a'' @ ''_1_x_0:'') CHR '':'' = Some 206 \<and>
      underscore_before (replicate 200 CHR ''a'' @ ''_1_x_0:'') 206 = Some 204 \<and>
      underscore_before (replicate 200 CHR ''a'' @ ''_1_x_0:'') 204 = Some 202 \<and>
      underscore_before (replicate 200 CHR ''a'' @ ''_1_x_0:'') 202 = Some 200"
    by code_simp
  have l2a: "sscanf_d (drop (200 + 1) (replicate 200 CHR ''a'' @ ''_1_x_0:'')) = Some 1"
    by code_simp
  have l2b: "(204 :: nat) \<noteq> 202 + 1 \<and> sscanf_d (drop (202 + 1) (replicate 200 CHR ''a'' @ ''_1_x_0:'')) = None"
    by code_simp
  have l3: "strchr (replicate 200 CHR ''a'' @ ''_1_5_0:'') CHR '':'' = Some 206 \<and>
      underscore_before (replicate 200 CHR ''a'' @ ''_1_5_0:'') 206 = Some 204 \<and>
      underscore_before (replicate 200 CHR ''a'' @ ''_1_5_0:'') 204 = Some 202 \<and>
      underscore_before (replicate 200 CHR ''a'' @ ''_1_5_0:'') 202 = Some 200"
    by code_simp
  have l3a: "sscanf_d (drop (200 + 1) (replicate 200 CHR ''a'' @ ''_1_5_0:'')) = Some 1"
    by code_simp
  have l3b: "if (204 :: nat) = 202 + 1 then (5 :: int) = 1
      else sscanf_d (drop (202 + 1) (replicate 200 CHR ''a'' @ ''_1_5_0:'')) = Some 5"
    by code_simp
  have l3c: "contigNameMaxSize \<le> 200"
    by (simp add: contigNameMaxSize_def)
  have g: "strchr ''chr1_1_5_0:'' CHR '':'' = Some 10 \<and>
      underscore_before ''chr1_1_5_0:'' 10 = Some 8 \<and>
      underscore_before ''chr1_1_5_0:'' 8 = Some 6 \<and>
      underscore_before ''chr1_1_5_0:'' 6 = Some 4"
    by code_simp
  have g1: "sscanf_d (drop (4 + 1) ''chr1_1_5_0:'') = Some 1"
    by code_simp
  have g2: "if (8 :: nat) = 6 + 1 then (5 :: int) = 1
      else sscanf_d (drop (6 + 1) ''chr1_1_5_0:'') = Some 5"
    by code_simp
  have g3: "4 < contigNameMaxSize"
    by (simp add: contigNameMaxSize_def)
  have w: "stored_as_unsigned 1 = (1 :: u32)" "stored_as_unsigned 5 = (5 :: u32)"
    by (simp_all add: stored_as_unsigned_def)
  have "wgsimParseId ''seq 17 of run'' = Inl (MissingColon, ''seq 17 of run'')"
    by (rule general [THEN conjunct1, rule_format, OF h0])
  moreover have "wgsimParseId ''chr1:100'' = Inl (MissingUnderscore1, ''chr1:100'')"
    by (rule counted [OF h1(1), THEN conjunct1, rule_format, OF h1(2)])
  moreover have "wgsimParseId ''chr1_100:'' = Inl (MissingUnderscore2, ''chr1_100:'')"
    by (rule counted [OF h2(1), THEN conjunct2, THEN conjunct1, rule_format, OF h2(2)])
  moreover have "wgsimParseId ''a_b_noUnderscorePattern:''
      = Inl (MissingUnderscore3, ''a_b_noUnderscorePattern:'')"
    by (rule counted [OF h3(1), THEN conjunct2, THEN conjunct2, THEN conjunct1, rule_format, OF h3(2)])
  moreover have "wgsimParseId ''chr1_100_x_0:'' = Inl (BadOffset2, ''chr1_100_x_0:'')"
    by (rule table [OF b, THEN conjunct2, rule_format, OF b1, THEN conjunct1, rule_format, OF b2])
  moreover have "wgsimParseId (replicate 200 CHR ''a'' @ ''_x_5_0:'')
      = Inl (BadOffset1, replicate 200 CHR ''a'' @ ''_x_5_0:'')"
    by (rule table [OF l1, THEN conjunct1, rule_format, OF l1a])
  moreover have "wgsimParseId (replicate 200 CHR ''a'' @ ''_1_x_0:'')
      = Inl (BadOffset2, replicate 200 CHR ''a'' @ ''_1_x_0:'')"
    by (rule table [OF l2, THEN conjunct2, rule_format, OF l2a, THEN conjunct1, rule_format, OF l2b])
  moreover have "wgsimParseId (replicate 200 CHR ''a'' @ ''_1_5_0:'')
      = Inl (ContigNameTooLong, replicate 200 CHR ''a'' @ ''_1_5_0:'')"
    by (rule table [OF l3, THEN conjunct2, rule_format, OF l3a, THEN conjunct2, rule_format, OF l3b,
          THEN conjunct1, rule_format, OF l3c])
  moreover have "wgsimParseId ''chr1_1_5_0:'' = Inr (''chr1'', 1, 5)"
    using table [OF g, THEN conjunct2, rule_format, OF g1, THEN conjunct2, rule_format, OF g2,
          THEN conjunct2, rule_format, OF g3]
    by (simp add: w)
  ultimately show ?thesis by blast
qed

end
